theory Spec2Isabelle
  imports Complex_Main "HOL-Library.Sublist"
begin

section \<open>Python values used by the pipeline\<close>

text \<open>
  A Python \<open>str\<close> is a sequence of Unicode code points; \<open>len\<close> counts code points and
  \<open>ord\<close> reads one.  A string is therefore a list of natural numbers, and \<open>str\<close> turns
  an ASCII literal into such a list.
\<close>

type_synonym pystr = "nat list"

definition str :: "string \<Rightarrow> pystr" where
  "str s = map of_char s"

text \<open>
  The characters that \<open>str.strip()\<close> and \<open>str.split()\<close> (both without argument) treat as
  whitespace: TAB..CR, FS..US, SPACE, NEL, NBSP and the Unicode space separators.
\<close>

definition is_space :: "nat \<Rightarrow> bool" where
  "is_space c \<longleftrightarrow>
     (9 \<le> c \<and> c \<le> 13) \<or> (28 \<le> c \<and> c \<le> 32) \<or> c = 133 \<or> c = 160 \<or> c = 5760 \<or>
     (8192 \<le> c \<and> c \<le> 8202) \<or> c = 8232 \<or> c = 8233 \<or> c = 8239 \<or> c = 8287 \<or> c = 12288"

text \<open>\<open>s.strip()\<close>: leading and trailing whitespace removed.\<close>

definition strip :: "pystr \<Rightarrow> pystr" where
  "strip s = rev (dropWhile is_space (rev (dropWhile is_space s)))"

text \<open>
  \<open>s.split()\<close>: the maximal runs of non-whitespace characters, in order; \<open>cur\<close> is the
  run being read.
\<close>

fun split_ws_from :: "pystr \<Rightarrow> pystr \<Rightarrow> pystr list" where
  "split_ws_from cur [] = (if cur = [] then [] else [cur])"
| "split_ws_from cur (c # cs) =
     (if is_space c
      then (if cur = [] then split_ws_from [] cs else cur # split_ws_from [] cs)
      else split_ws_from (cur @ [c]) cs)"

definition split_ws :: "pystr \<Rightarrow> pystr list" where
  "split_ws s = split_ws_from [] s"

text \<open>
  \<open>s.split(sep)\<close> for a one-character separator: the pieces between separators, empty
  pieces included, so the result is never the empty list.
\<close>

fun split_char_from :: "nat \<Rightarrow> pystr \<Rightarrow> pystr \<Rightarrow> pystr list" where
  "split_char_from sep cur [] = [cur]"
| "split_char_from sep cur (c # cs) =
     (if c = sep then cur # split_char_from sep [] cs
      else split_char_from sep (cur @ [c]) cs)"

definition split_char :: "nat \<Rightarrow> pystr \<Rightarrow> pystr list" where
  "split_char sep s = split_char_from sep [] s"

text \<open>\<open>sep.join(parts)\<close>.\<close>

fun join :: "pystr \<Rightarrow> pystr list \<Rightarrow> pystr" where
  "join sep [] = []"
| "join sep [x] = x"
| "join sep (x # y # ys) = x @ sep @ join sep (y # ys)"

text \<open>Exceptions are values; the payload is the text that \<open>str(e)\<close> shows.\<close>

datatype exn = Exception pystr

text \<open>
  \<open>try: body except Exception as e: handler\<close> for a body whose outcome is already
  known as a value.
\<close>

definition try_except :: "exn + 'a \<Rightarrow> (exn \<Rightarrow> exn + 'a) \<Rightarrow> exn + 'a" where
  "try_except body handler = (case body of Inl e \<Rightarrow> handler e | Inr v \<Rightarrow> Inr v)"

definition bind :: "exn + 'a \<Rightarrow> ('a \<Rightarrow> exn + 'b) \<Rightarrow> exn + 'b" where
  "bind m f = (case m of Inl e \<Rightarrow> Inl e | Inr v \<Rightarrow> f v)"


section \<open>The text extractor (ocr_processor.py)\<close>

text \<open>
  The image libraries are outside the repository.  Their calls are fields of a record,
  each returning either the exception it raised or its value.  \<open>'f\<close> is the uploaded
  file object, \<open>'i\<close> the image array and \<open>'c\<close> an entry of the \<open>'conf'\<close> column of
  \<open>pytesseract.image_to_data(..., output_type=Output.DICT)\<close>, which \<open>image_to_data_conf\<close>
  returns.  \<open>py_int\<close> is Python's \<open>int(...)\<close> on such an entry; it raises on an entry that
  is not a number.
\<close>

record ('f, 'i, 'c) libs =
  image_open :: "'f \<Rightarrow> exn + 'i"
  ndim :: "'i \<Rightarrow> nat"
  cvtColor :: "'i \<Rightarrow> exn + 'i"
  GaussianBlur :: "'i \<Rightarrow> exn + 'i"
  threshold :: "'i \<Rightarrow> exn + 'i"
  morphologyEx :: "'i \<Rightarrow> exn + 'i"
  image_to_string :: "'i \<Rightarrow> exn + pystr"
  image_to_data_conf :: "'i \<Rightarrow> exn + 'c list"
  py_int :: "'c \<Rightarrow> exn + int"

definition preprocess_image :: "('f, 'i, 'c) libs \<Rightarrow> 'i \<Rightarrow> exn + 'i" where
  "preprocess_image L img =
     bind (if ndim L img = 3 then cvtColor L img else Inr img) (\<lambda>gray.
     bind (GaussianBlur L gray) (\<lambda>blurred.
     bind (threshold L blurred) (\<lambda>thresh.
     morphologyEx L thresh)))"

text \<open>The loop of \<open>clean_text\<close>; \<open>cleaned_lines\<close> is the list being appended to.\<close>

fun clean_loop :: "pystr list \<Rightarrow> pystr list \<Rightarrow> pystr list" where
  "clean_loop [] cleaned_lines = cleaned_lines"
| "clean_loop (line # lines) cleaned_lines =
     (let line' = join (str '' '') (split_ws line)
      in if strip line' \<noteq> [] then clean_loop lines (cleaned_lines @ [line'])
         else clean_loop lines cleaned_lines)"

definition clean_text :: "pystr \<Rightarrow> pystr" where
  "clean_text text = join (str ''\<newline>'') (clean_loop (split_char 10 text) [])"

definition extract_text :: "('f, 'i, 'c) libs \<Rightarrow> 'i \<Rightarrow> exn + pystr" where
  "extract_text L img =
     try_except
       (bind (preprocess_image L img) (\<lambda>processed_image.
        bind (image_to_string L processed_image) (\<lambda>text.
        Inr (clean_text text))))
       (\<lambda>e. Inr [])"

text \<open>
  \<open>[int(conf) for conf in data['conf'] if int(conf) > 0]\<close>: every entry is converted for
  the test, and once more when it is kept; the first conversion that raises ends the
  comprehension.
\<close>

fun positive_confidences :: "('c \<Rightarrow> exn + int) \<Rightarrow> 'c list \<Rightarrow> exn + int list" where
  "positive_confidences to_int [] = Inr []"
| "positive_confidences to_int (conf # rest) =
     bind (to_int conf) (\<lambda>v.
       if v > 0
       then bind (to_int conf) (\<lambda>v'.
            bind (positive_confidences to_int rest) (\<lambda>vs. Inr (v' # vs)))
       else positive_confidences to_int rest)"

text \<open>
  \<open>sum(confidences) / len(confidences)\<close> is Python's true division of two integers; its
  value is the quotient as a real number (the float returned is that quotient rounded).
\<close>

definition get_text_confidence :: "('f, 'i, 'c) libs \<Rightarrow> 'i \<Rightarrow> exn + real" where
  "get_text_confidence L img =
     try_except
       (bind (preprocess_image L img) (\<lambda>processed_image.
        bind (image_to_data_conf L processed_image) (\<lambda>data_conf.
        bind (positive_confidences (py_int L) data_conf) (\<lambda>confidences.
        if confidences \<noteq> []
        then Inr (real_of_int (sum_list confidences) / real (length confidences))
        else Inr 0))))
       (\<lambda>e. Inr 0)"

text \<open>
  The ratio is a quotient of two lengths and is compared with the literal \<open>0.3\<close>.  Float
  division rounds monotonically and the literal is the float nearest to 3/10, so for any
  string that fits in memory the comparison agrees with the one on exact quotients.
\<close>

definition detect_language :: "pystr \<Rightarrow> pystr" where
  "detect_language text =
     (let non_ascii_count = length (filter (\<lambda>char. char > 127) text);
          total_chars = length text
      in if total_chars = 0 then str ''en''
         else let non_ascii_ratio = real non_ascii_count / real total_chars
              in if non_ascii_ratio > 3 / 10 then str ''es'' else str ''en'')"

definition process_uploaded_image ::
    "('f, 'i, 'c) libs \<Rightarrow> 'f \<Rightarrow> exn + (pystr \<times> real \<times> pystr)" where
  "process_uploaded_image L uploaded_file =
     try_except
       (bind (image_open L uploaded_file) (\<lambda>image_array.
        bind (extract_text L image_array) (\<lambda>text.
        bind (get_text_confidence L image_array) (\<lambda>confidence.
        let language = detect_language text
        in Inr (text, confidence, language)))))
       (\<lambda>e. Inr ([], 0, str ''en''))"

text \<open>
  The post-processing as the specification words it: split into lines, collapse the
  whitespace inside each line, drop the lines that are blank, rejoin.
\<close>

definition collapse_ws :: "pystr \<Rightarrow> pystr" where
  "collapse_ws line = join (str '' '') (split_ws line)"

definition blank :: "pystr \<Rightarrow> bool" where
  "blank line = list_all is_space line"

definition clean_text_spec :: "pystr \<Rightarrow> pystr" where
  "clean_text_spec text =
     join (str ''\<newline>'')
       (filter (\<lambda>line. \<not> blank line) (map collapse_ws (split_char 10 text)))"

text \<open>The fraction of characters of a non-empty string with code point above 127.\<close>

definition non_ascii_fraction :: "pystr \<Rightarrow> real" where
  "non_ascii_fraction text = real (length (filter (\<lambda>c. c > 127) text)) / real (length text)"

text \<open>
  The confidence as the specification words it: all entries are read as numbers, and the
  ones strictly greater than zero are averaged, 0 when there is none.
\<close>

fun read_all :: "('c \<Rightarrow> exn + int) \<Rightarrow> 'c list \<Rightarrow> exn + int list" where
  "read_all to_int [] = Inr []"
| "read_all to_int (c # cs) =
     bind (to_int c) (\<lambda>v. bind (read_all to_int cs) (\<lambda>vs. Inr (v # vs)))"

definition mean_positive :: "int list \<Rightarrow> real" where
  "mean_positive vals =
     (let pos = filter (\<lambda>v. 0 < v) vals
      in if pos = [] then 0 else real_of_int (sum_list pos) / real (length pos))"

definition token_confidences :: "('f, 'i, 'c) libs \<Rightarrow> 'i \<Rightarrow> exn + int list" where
  "token_confidences L img =
     bind (preprocess_image L img) (\<lambda>p.
     bind (image_to_data_conf L p) (\<lambda>data_conf. read_all (py_int L) data_conf))"

text \<open>The raw text of the OCR stage of \<open>extract_text\<close>, before cleaning.\<close>

definition ocr_text :: "('f, 'i, 'c) libs \<Rightarrow> 'i \<Rightarrow> exn + pystr" where
  "ocr_text L img = bind (preprocess_image L img) (\<lambda>p. image_to_string L p)"

text \<open>
  Library behaviours for concrete runs: the outcome of opening the file, of the blur
  step of preprocessing, of \<open>image_to_string\<close> and of \<open>image_to_data\<close>; files and images
  are numbers, confidence entries are integers already.
\<close>

definition fake_libs ::
    "exn + nat \<Rightarrow> exn + nat \<Rightarrow> exn + pystr \<Rightarrow> exn + int list \<Rightarrow> (nat, nat, int) libs" where
  "fake_libs opened blurred ocr confs =
     \<lparr> image_open = (\<lambda>f. opened), ndim = (\<lambda>i. 2), cvtColor = Inr,
       GaussianBlur = (\<lambda>i. blurred), threshold = Inr, morphologyEx = Inr,
       image_to_string = (\<lambda>i. ocr), image_to_data_conf = (\<lambda>i. confs), py_int = Inr \<rparr>"

definition lib_error :: exn where
  "lib_error = Exception (str ''library error'')"


section \<open>The generation engine (ai_engine.py)\<close>

subsection \<open>Floats, dictionaries and \<open>str.format\<close>\<close>

text \<open>
  A Python float is a number, an infinity or NaN.  Only comparisons are applied to the
  settings, so a finite float is the real number it denotes; \<open>Num (1 / 10)\<close> is the
  literal \<open>0.1\<close> (no float lies between 1/10 and that literal, so every comparison with
  it agrees).  \<open>float_lt a b\<close> is \<open>a < b\<close>, false whenever NaN is involved.
\<close>

datatype pyfloat = Num real | PosInf | NegInf | NaN

fun float_lt :: "pyfloat \<Rightarrow> pyfloat \<Rightarrow> bool" where
  "float_lt (Num x) (Num y) = (x < y)"
| "float_lt (Num x) PosInf = True"
| "float_lt NegInf (Num y) = True"
| "float_lt NegInf PosInf = True"
| "float_lt a b = False"

fun float_le :: "pyfloat \<Rightarrow> pyfloat \<Rightarrow> bool" where
  "float_le (Num x) (Num y) = (x \<le> y)"
| "float_le (Num x) PosInf = True"
| "float_le NegInf (Num y) = True"
| "float_le NegInf PosInf = True"
| "float_le NegInf NegInf = True"
| "float_le PosInf PosInf = True"
| "float_le a b = False"

text \<open>
  The builtins \<open>min(a, b)\<close> and \<open>max(a, b)\<close> keep the first argument unless the second
  is strictly smaller (larger).
\<close>

definition py_min :: "pyfloat \<Rightarrow> pyfloat \<Rightarrow> pyfloat" where
  "py_min a b = (if float_lt b a then b else a)"

definition py_max :: "pyfloat \<Rightarrow> pyfloat \<Rightarrow> pyfloat" where
  "py_max a b = (if float_lt a b then b else a)"

text \<open>\<open>d[k]\<close> raises KeyError on a missing key; \<open>d.get(k, default)\<close> does not.\<close>

definition dict_item :: "(pystr \<times> 'v) list \<Rightarrow> pystr \<Rightarrow> exn + 'v" where
  "dict_item d k =
     (case map_of d k of None \<Rightarrow> Inl (Exception (str ''KeyError: '' @ k)) | Some v \<Rightarrow> Inr v)"

definition dict_get :: "(pystr \<times> 'v) list \<Rightarrow> pystr \<Rightarrow> 'v \<Rightarrow> 'v" where
  "dict_get d k fallback = (case map_of d k of None \<Rightarrow> fallback | Some v \<Rightarrow> v)"

text \<open>
  \<open>template.format(**kw)\<close> for the replacement fields the templates use: literal text,
  the escapes \<open>{{\<close> and \<open>}}\<close>, and \<open>{name}\<close> with \<open>name\<close> an identifier looked up among the
  keyword arguments (the value, a string, is inserted as it is).  Code point 123 is
  \<open>{\<close> and 125 is \<open>}\<close>.  Fields with an index, an attribute, a conversion or a format
  specification are not modelled and are reported as an exception.
\<close>

definition ident_start :: "nat \<Rightarrow> bool" where
  "ident_start c \<longleftrightarrow> (65 \<le> c \<and> c \<le> 90) \<or> (97 \<le> c \<and> c \<le> 122) \<or> c = 95"

definition ident_char :: "nat \<Rightarrow> bool" where
  "ident_char c \<longleftrightarrow> ident_start c \<or> (48 \<le> c \<and> c \<le> 57)"

definition plain_name :: "pystr \<Rightarrow> bool" where
  "plain_name name \<longleftrightarrow> name \<noteq> [] \<and> ident_start (hd name) \<and> list_all ident_char name"

datatype fmt_mode = Literal | Field pystr

fun format_from :: "(pystr \<times> pystr) list \<Rightarrow> fmt_mode \<Rightarrow> pystr \<Rightarrow> exn + pystr" where
  "format_from kw Literal [] = Inr []"
| "format_from kw Literal (c # cs) =
     (if c = 123 then
        (case cs of
           [] \<Rightarrow> Inl (Exception (str ''Single { encountered in format string''))
         | d # ds \<Rightarrow>
             if d = 123 then bind (format_from kw Literal ds) (\<lambda>r. Inr (123 # r))
             else format_from kw (Field []) cs)
      else if c = 125 then
        (case cs of
           [] \<Rightarrow> Inl (Exception (str ''Single } encountered in format string''))
         | d # ds \<Rightarrow>
             if d = 125 then bind (format_from kw Literal ds) (\<lambda>r. Inr (125 # r))
             else Inl (Exception (str ''Single } encountered in format string'')))
      else bind (format_from kw Literal cs) (\<lambda>r. Inr (c # r)))"
| "format_from kw (Field name) [] =
     Inl (Exception (str ''expected } before end of string''))"
| "format_from kw (Field name) (c # cs) =
     (if c = 125 then
        (if \<not> plain_name name then Inl (Exception (str ''unsupported replacement field''))
         else case map_of kw name of
                None \<Rightarrow> Inl (Exception (str ''KeyError: '' @ name))
              | Some v \<Rightarrow> bind (format_from kw Literal cs) (\<lambda>r. Inr (v @ r)))
      else format_from kw (Field (name @ [c])) cs)"

definition py_format :: "pystr \<Rightarrow> (pystr \<times> pystr) list \<Rightarrow> exn + pystr" where
  "py_format template kw = format_from kw Literal template"

subsection \<open>The engine and its prompts\<close>

text \<open>
  The fields of \<open>AIEngine\<close> that the operations read or write.  The loaded model and its
  tokenizer are the backend below; \<open>self.prompts\<close> is the constant \<open>prompts\<close>.
\<close>

record engine =
  model_loaded :: bool
  device :: pystr
  model_name :: pystr
  max_length :: int
  temperature :: pyfloat
  top_p :: pyfloat

definition init_engine :: "bool \<Rightarrow> engine" where
  "init_engine cuda_is_available =
     \<lparr> model_loaded = False,
       device = (if cuda_is_available then str ''cuda'' else str ''cpu''),
       model_name = str ''google/gemma-2-9b-it'',
       max_length = 2048,
       temperature = Num (7 / 10),
       top_p = Num (9 / 10) \<rparr>"

definition summarize_en :: pystr where
  "summarize_en =
     str ''You are a helpful educational assistant. Summarize the following '' @
     str ''textbook content in simple terms that a 12-year-old student '' @
     str ''can understand. Focus on the main concepts and explain them '' @
     str ''clearly:\<newline>\<newline>'' @ str ''{text}'' @
     str ''\<newline>\<newline>Summary:''"

definition summarize_es :: pystr where
  "summarize_es =
     str ''Eres un asistente educativo '' @ [250] @
     str ''til. Resume el siguiente contenido del libro de texto en t'' @ [233] @
     str ''rminos simples que un estudiante de 12 a'' @ [241] @
     str ''os pueda entender. Enf'' @ [243] @
     str ''cate en los conceptos principales y expl'' @ [237] @
     str ''calos claramente:\<newline>\<newline>'' @ str ''{text}'' @
     str ''\<newline>\<newline>Resumen:''"

definition summarize_fr :: pystr where
  "summarize_fr =
     str ''Vous '' @ [234] @ str ''tes un assistant '' @ [233] @ str ''ducatif utile. R'' @
     [233] @ str ''sumez le contenu suivant du manuel en termes simples qu'' @ [39] @
     str ''un '' @ [233] @
     str ''tudiant de 12 ans peut comprendre. Concentrez-vous sur les concepts '' @
     str ''principaux et expliquez-les clairement:\<newline>\<newline>'' @ str ''{text}'' @
     str ''\<newline>\<newline>R'' @ [233] @ str ''sum'' @ [233] @ str '':''"

definition summarize_de :: pystr where
  "summarize_de =
     str ''Sie sind ein hilfreicher Bildungsassistent. Fassen Sie den folgenden '' @
     str ''Lehrbuchinhalt in einfachen Begriffen zusammen, die ein 12-j'' @ [228] @
     str ''hriger Sch'' @ [252] @
     str ''ler verstehen kann. Konzentrieren Sie sich auf die Hauptkonzepte '' @
     str ''und erkl'' @ [228] @ str ''ren Sie sie klar:\<newline>\<newline>'' @
     str ''{text}'' @ str ''\<newline>\<newline>Zusammenfassung:''"

definition answer_question_en :: pystr where
  "answer_question_en =
     str ''You are a helpful educational assistant. Answer the following '' @
     str ''question in a way that a school student can understand. Provide '' @
     str ''a clear, accurate, and educational response:\<newline>\<newline>Question: '' @
     str ''{question}'' @ str ''\<newline>\<newline>Answer:''"

definition answer_question_es :: pystr where
  "answer_question_es =
     str ''Eres un asistente educativo '' @ [250] @
     str ''til. Responde la siguiente pregunta de una manera que un estudiante '' @
     str ''escolar pueda entender. Proporciona una respuesta clara, precisa '' @
     str ''y educativa:\<newline>\<newline>Pregunta: '' @ str ''{question}'' @
     str ''\<newline>\<newline>Respuesta:''"

definition answer_question_fr :: pystr where
  "answer_question_fr =
     str ''Vous '' @ [234] @ str ''tes un assistant '' @ [233] @ str ''ducatif utile. R'' @
     [233] @ str ''pondez '' @ [224] @ str '' la question suivante d'' @ [39] @
     str ''une mani'' @ [232] @ str ''re qu'' @ [39] @ str ''un '' @ [233] @
     str ''tudiant peut comprendre. Fournissez une r'' @ [233] @ str ''ponse claire, pr'' @
     [233] @ str ''cise et '' @ [233] @ str ''ducative:\<newline>\<newline>Question: '' @
     str ''{question}'' @ str ''\<newline>\<newline>R'' @ [233] @ str ''ponse:''"

definition answer_question_de :: pystr where
  "answer_question_de =
     str ''Sie sind ein hilfreicher Bildungsassistent. Beantworten Sie '' @
     str ''die folgende Frage so, dass ein Sch'' @ [252] @
     str ''ler sie verstehen kann. Geben Sie eine klare, genaue und lehrreiche '' @
     str ''Antwort:\<newline>\<newline>Frage: '' @ str ''{question}'' @
     str ''\<newline>\<newline>Antwort:''"

definition explain_concept_en :: pystr where
  "explain_concept_en =
     str ''You are a helpful educational assistant. Explain the following '' @
     str ''concept in simple terms that a student can understand. Use examples '' @
     str ''and analogies if helpful:\<newline>\<newline>Concept: '' @ str ''{concept}'' @
     str ''\<newline>\<newline>Explanation:''"

definition explain_concept_es :: pystr where
  "explain_concept_es =
     str ''Eres un asistente educativo '' @ [250] @
     str ''til. Explica el siguiente concepto en t'' @ [233] @
     str ''rminos simples que un estudiante pueda entender. Usa ejemplos '' @
     str ''y analog'' @ [237] @ str ''as si es '' @ [250] @
     str ''til:\<newline>\<newline>Concepto: '' @ str ''{concept}'' @
     str ''\<newline>\<newline>Explicaci'' @ [243] @ str ''n:''"

definition explain_concept_fr :: pystr where
  "explain_concept_fr =
     str ''Vous '' @ [234] @ str ''tes un assistant '' @ [233] @
     str ''ducatif utile. Expliquez le concept suivant en termes simples '' @ str ''qu'' @
     [39] @ str ''un '' @ [233] @
     str ''tudiant peut comprendre. Utilisez des exemples et des analogies '' @ str ''si c'' @
     [39] @ str ''est utile:\<newline>\<newline>Concept: '' @ str ''{concept}'' @
     str ''\<newline>\<newline>Explication:''"

definition explain_concept_de :: pystr where
  "explain_concept_de =
     str ''Sie sind ein hilfreicher Bildungsassistent. Erkl'' @ [228] @
     str ''ren Sie das folgende Konzept in einfachen Begriffen, die ein '' @ str ''Sch'' @
     [252] @ str ''ler verstehen kann. Verwenden Sie Beispiele und Analogien, wenn '' @
     str ''es hilfreich ist:\<newline>\<newline>Konzept: '' @ str ''{concept}'' @
     str ''\<newline>\<newline>Erkl'' @ [228] @ str ''rung:''"

definition prompts :: "(pystr \<times> (pystr \<times> pystr) list) list" where
  "prompts =
     [(str ''summarize'',
         [(str ''en'', summarize_en), (str ''es'', summarize_es),
          (str ''fr'', summarize_fr), (str ''de'', summarize_de)]),
      (str ''answer_question'',
         [(str ''en'', answer_question_en), (str ''es'', answer_question_es),
          (str ''fr'', answer_question_fr), (str ''de'', answer_question_de)]),
      (str ''explain_concept'',
         [(str ''en'', explain_concept_en), (str ''es'', explain_concept_es),
          (str ''fr'', explain_concept_fr), (str ''de'', explain_concept_de)])]"

text \<open>
  \<open>load_model\<close>: the two booleans say whether loading the primary model and, after its
  failure, the fallback model succeeds.  A name is taken when it is given and not empty.
\<close>

definition load_model :: "engine \<Rightarrow> pystr option \<Rightarrow> bool \<Rightarrow> bool \<Rightarrow> engine \<times> bool" where
  "load_model e name primary_ok fallback_ok =
     (let e1 = (case name of None \<Rightarrow> e
                | Some n \<Rightarrow> if n \<noteq> [] then e\<lparr>model_name := n\<rparr> else e)
      in if primary_ok then (e1\<lparr>model_loaded := True\<rparr>, True)
         else if fallback_ok then (e1\<lparr>model_loaded := True\<rparr>, True)
         else (e1, False))"

definition update_settings ::
    "engine \<Rightarrow> pyfloat option \<Rightarrow> pyfloat option \<Rightarrow> int option \<Rightarrow> engine" where
  "update_settings e temperature_arg top_p_arg max_length_arg =
     (let e1 = (case temperature_arg of None \<Rightarrow> e
                | Some t \<Rightarrow> e\<lparr>temperature := py_max (Num (1 / 10)) (py_min (Num 2) t)\<rparr>);
          e2 = (case top_p_arg of None \<Rightarrow> e1
                | Some p \<Rightarrow> e1\<lparr>top_p := py_max (Num (1 / 10)) (py_min (Num 1) p)\<rparr>);
          e3 = (case max_length_arg of None \<Rightarrow> e2
                | Some m \<Rightarrow> e2\<lparr>max_length := max 100 (min 4096 m)\<rparr>)
      in e3)"

subsection \<open>Generation\<close>

text \<open>
  What an operation does besides returning: the messages it shows, and two marks, one
  when \<open>generate_response\<close> is entered and one when the tokenizer and the model are
  called.  An operation yields its outcome and the list of these events in order.
\<close>

datatype event =
    St_error pystr
  | Generation_requested pystr "int option"
  | Model_invoked pystr int

type_synonym 'a io = "(exn + 'a) \<times> event list"

definition io_return :: "'a \<Rightarrow> 'a io" where
  "io_return v = (Inr v, [])"

definition lift :: "exn + 'a \<Rightarrow> 'a io" where
  "lift m = (m, [])"

definition emit :: "event \<Rightarrow> unit io" where
  "emit ev = (Inr (), [ev])"

definition io_bind :: "'a io \<Rightarrow> ('a \<Rightarrow> 'b io) \<Rightarrow> 'b io" where
  "io_bind m f =
     (case m of
        (Inl e, tr) \<Rightarrow> (Inl e, tr)
      | (Inr v, tr) \<Rightarrow> (case f v of (r, tr') \<Rightarrow> (r, tr @ tr')))"

definition io_try :: "'a io \<Rightarrow> (exn \<Rightarrow> 'a io) \<Rightarrow> 'a io" where
  "io_try body handler =
     (case body of
        (Inl e, tr) \<Rightarrow> (case handler e of (r, tr') \<Rightarrow> (r, tr @ tr'))
      | (Inr v, tr) \<Rightarrow> (Inr v, tr))"

text \<open>
  The model and its tokenizer: given the prompt, the truncation length, the generation
  length, the temperature and top-p, the decoded output of one sampling run, or the
  exception raised while tokenizing, generating or decoding.
\<close>

type_synonym backend = "pystr \<Rightarrow> int \<Rightarrow> int \<Rightarrow> pyfloat \<Rightarrow> pyfloat \<Rightarrow> exn + pystr"

text \<open>\<open>max_length or self.max_length\<close>: \<open>None\<close> and 0 are false.\<close>

definition py_or :: "int option \<Rightarrow> int \<Rightarrow> int" where
  "py_or a b = (case a of None \<Rightarrow> b | Some n \<Rightarrow> if n = 0 then b else n)"

definition generate_response :: "backend \<Rightarrow> engine \<Rightarrow> pystr \<Rightarrow> int option \<Rightarrow> pystr io" where
  "generate_response B e prompt max_length_arg =
     io_bind (emit (Generation_requested prompt max_length_arg)) (\<lambda>_.
     if \<not> model_loaded e then
       io_bind (emit (St_error (str ''Model not loaded. Please load the model first.''))) (\<lambda>_.
       io_return [])
     else
       io_try
         (io_bind (emit (Model_invoked prompt (py_or max_length_arg (max_length e)))) (\<lambda>_.
          io_bind (lift (B prompt (max_length e) (py_or max_length_arg (max_length e))
                           (temperature e) (top_p e))) (\<lambda>response.
          let generated_text = strip (drop (length prompt) response)
          in io_return generated_text)))
         (\<lambda>ex. case ex of Exception msg \<Rightarrow>
            io_bind (emit (St_error (str ''Error generating response: '' @ msg))) (\<lambda>_.
            io_return [])))"

text \<open>The prompt each operation builds before it calls \<open>generate_response\<close>.\<close>

definition summarize_prompt :: "pystr \<Rightarrow> pystr \<Rightarrow> exn + pystr" where
  "summarize_prompt language text =
     bind (dict_item prompts (str ''summarize'')) (\<lambda>d.
     bind (dict_item d (str ''en'')) (\<lambda>fallback.
     let prompt_template = dict_get d language fallback
     in py_format prompt_template [(str ''text'', text)]))"

definition answer_prompt :: "pystr \<Rightarrow> pystr \<Rightarrow> exn + pystr" where
  "answer_prompt language question =
     bind (dict_item prompts (str ''answer_question'')) (\<lambda>d.
     bind (dict_item d (str ''en'')) (\<lambda>fallback.
     let prompt_template = dict_get d language fallback
     in py_format prompt_template [(str ''question'', question)]))"

definition explain_prompt :: "pystr \<Rightarrow> pystr \<Rightarrow> exn + pystr" where
  "explain_prompt language concept =
     bind (dict_item prompts (str ''explain_concept'')) (\<lambda>d.
     bind (dict_item d (str ''en'')) (\<lambda>fallback.
     let prompt_template = dict_get d language fallback
     in py_format prompt_template [(str ''concept'', concept)]))"

definition translation_prompts :: "pystr \<Rightarrow> (pystr \<times> pystr) list" where
  "translation_prompts text =
     [(str ''es'', str ''Translate the following text to Spanish:\<newline>\<newline>'' @ text @
                   str ''\<newline>\<newline>Translation:''),
      (str ''fr'', str ''Translate the following text to French:\<newline>\<newline>'' @ text @
                   str ''\<newline>\<newline>Translation:''),
      (str ''de'', str ''Translate the following text to German:\<newline>\<newline>'' @ text @
                   str ''\<newline>\<newline>Translation:''),
      (str ''en'', str ''Translate the following text to English:\<newline>\<newline>'' @ text @
                   str ''\<newline>\<newline>Translation:'')]"

definition translate_prompt :: "pystr \<Rightarrow> pystr \<Rightarrow> exn + pystr" where
  "translate_prompt target_language text =
     bind (dict_item (translation_prompts text) (str ''en'')) (\<lambda>fallback.
     Inr (dict_get (translation_prompts text) target_language fallback))"

definition summarize_text :: "backend \<Rightarrow> engine \<Rightarrow> pystr \<Rightarrow> pystr \<Rightarrow> pystr io" where
  "summarize_text B e text language =
     (if strip text = [] then io_return (str ''No text provided for summarization.'')
      else
        io_bind (lift (summarize_prompt language text)) (\<lambda>prompt.
        io_bind (generate_response B e prompt (Some 500)) (\<lambda>summary.
        if summary = [] then io_return (str ''Unable to generate summary at this time.'')
        else io_return summary)))"

definition answer_question :: "backend \<Rightarrow> engine \<Rightarrow> pystr \<Rightarrow> pystr \<Rightarrow> pystr io" where
  "answer_question B e question language =
     (if strip question = [] then io_return (str ''No question provided.'')
      else
        io_bind (lift (answer_prompt language question)) (\<lambda>prompt.
        io_bind (generate_response B e prompt (Some 800)) (\<lambda>answer.
        if answer = [] then io_return (str ''Unable to generate answer at this time.'')
        else io_return answer)))"

definition explain_concept :: "backend \<Rightarrow> engine \<Rightarrow> pystr \<Rightarrow> pystr \<Rightarrow> pystr io" where
  "explain_concept B e concept language =
     (if strip concept = [] then io_return (str ''No concept provided for explanation.'')
      else
        io_bind (lift (explain_prompt language concept)) (\<lambda>prompt.
        io_bind (generate_response B e prompt (Some 600)) (\<lambda>explanation.
        if explanation = [] then io_return (str ''Unable to generate explanation at this time.'')
        else io_return explanation)))"

definition translate_text :: "backend \<Rightarrow> engine \<Rightarrow> pystr \<Rightarrow> pystr \<Rightarrow> pystr io" where
  "translate_text B e text target_language =
     (if strip text = [] then io_return []
      else
        io_bind (lift (translate_prompt target_language text)) (\<lambda>prompt.
        io_bind (generate_response B e prompt (Some 400)) (\<lambda>translation.
        io_return (if translation \<noteq> [] then translation else text))))"


subsection \<open>Notions used to state the properties of the engine\<close>

text \<open>The ranges of the three generation settings.\<close>

definition settings_in_range :: "engine \<Rightarrow> bool" where
  "settings_in_range e \<longleftrightarrow>
     float_le (Num (1 / 10)) (temperature e) \<and> float_le (temperature e) (Num 2) \<and>
     float_le (Num (1 / 10)) (top_p e) \<and> float_le (top_p e) (Num 1) \<and>
     100 \<le> max_length e \<and> max_length e \<le> 4096"

text \<open>
  The operations that write the engine (nothing else in the repository assigns its
  fields), and the engine after initialization and a sequence of them.
\<close>

datatype operation =
    Load_model "pystr option" bool bool
  | Update_settings "pyfloat option" "pyfloat option" "int option"

fun apply_operation :: "engine \<Rightarrow> operation \<Rightarrow> engine" where
  "apply_operation e (Load_model name primary_ok fallback_ok) =
     fst (load_model e name primary_ok fallback_ok)"
| "apply_operation e (Update_settings t p m) = update_settings e t p m"

definition engine_after :: "bool \<Rightarrow> operation list \<Rightarrow> engine" where
  "engine_after cuda_is_available ops =
     foldl apply_operation (init_engine cuda_is_available) ops"

text \<open>
  A template with a single placeholder \<open>{name}\<close>: the text before the first \<open>{\<close>, the
  text after the first \<open>}\<close>, and no other brace.
\<close>

definition brace_free :: "pystr \<Rightarrow> bool" where
  "brace_free s = list_all (\<lambda>c. c \<noteq> 123 \<and> c \<noteq> 125) s"

definition before_field :: "pystr \<Rightarrow> pystr" where
  "before_field t = takeWhile (\<lambda>c. c \<noteq> 123) t"

definition after_field :: "pystr \<Rightarrow> pystr" where
  "after_field t = drop 1 (dropWhile (\<lambda>c. c \<noteq> 125) t)"

definition single_field :: "pystr \<Rightarrow> pystr \<Rightarrow> bool" where
  "single_field name t \<longleftrightarrow>
     t = before_field t @ [123] @ name @ [125] @ after_field t \<and>
     brace_free (before_field t) \<and> brace_free (after_field t) \<and> plain_name name"

text \<open>
  The template for a task kind and a language as the specification words it: the entry
  keyed by the pair, the English entry of the kind when the language has none.
\<close>

definition template_of :: "pystr \<Rightarrow> pystr \<Rightarrow> pystr option" where
  "template_of kind language =
     (case map_of prompts kind of
        None \<Rightarrow> None
      | Some d \<Rightarrow> (case map_of d language of
                     Some t \<Rightarrow> Some t
                   | None \<Rightarrow> map_of d (str ''en'')))"

definition supported_languages :: "pystr list" where
  "supported_languages = [str ''en'', str ''es'', str ''fr'', str ''de'']"

text \<open>
  The language that the translation prompt names for a target language code: Spanish,
  French and German for es, fr and de, English for en and for every other code.
\<close>

definition target_language_name :: "pystr \<Rightarrow> pystr" where
  "target_language_name code =
     (if code = str ''es'' then str ''Spanish''
      else if code = str ''fr'' then str ''French''
      else if code = str ''de'' then str ''German''
      else str ''English'')"

text \<open>
  Backends for concrete runs: one that always raises, and one whose decoded output is
  the prompt followed by a given continuation.  \<open>loaded_engine\<close> is the initial engine
  after a successful \<open>load_model()\<close>.
\<close>

definition failing_backend :: backend where
  "failing_backend = (\<lambda>prompt trunc len t p. Inl lib_error)"

definition echo_backend :: "pystr \<Rightarrow> backend" where
  "echo_backend continuation = (\<lambda>prompt trunc len t p. Inr (prompt @ continuation))"

definition loaded_engine :: engine where
  "loaded_engine = fst (load_model (init_engine False) None True False)"


section \<open>Properties of the text extractor\<close>

subsection \<open>Whitespace and cleaning\<close>

lemma all_dropWhile_iff: "(\<forall>x\<in>set (dropWhile P xs). P x) \<longleftrightarrow> (\<forall>x\<in>set xs. P x)"
proof
  assume a: "\<forall>x\<in>set (dropWhile P xs). P x"
  have "dropWhile P xs = []"
  proof (rule ccontr)
    assume n: "dropWhile P xs \<noteq> []"
    then have "\<not> P (hd (dropWhile P xs))" by (rule hd_dropWhile)
    moreover have "hd (dropWhile P xs) \<in> set (dropWhile P xs)" using n by simp
    ultimately show False using a by blast
  qed
  then show "\<forall>x\<in>set xs. P x" by simp
next
  assume "\<forall>x\<in>set xs. P x"
  then show "\<forall>x\<in>set (dropWhile P xs). P x" by (auto dest: set_dropWhileD)
qed

lemma strip_empty_iff: "strip s = [] \<longleftrightarrow> (\<forall>c\<in>set s. is_space c)"
  by (simp add: strip_def all_dropWhile_iff)

lemma strip_blank: "strip s = [] \<longleftrightarrow> blank s"
  by (simp add: strip_empty_iff blank_def list_all_iff)

lemma clean_loop_filter:
  "clean_loop ls acc = acc @ filter (\<lambda>l. \<not> blank l) (map collapse_ws ls)"
  by (induction ls arbitrary: acc) (simp_all add: Let_def strip_blank collapse_ws_def)

text \<open>
  C9.  For every string, \<open>clean_text\<close> equals the reference post-processing: split on
  newlines, collapse the whitespace of each line by joining its whitespace-separated
  tokens with single spaces, drop the lines that are blank after collapsing, rejoin
  with single newlines.
\<close>

theorem clean_text_refines_spec: "clean_text text = clean_text_spec text"
  by (simp add: clean_text_def clean_text_spec_def clean_loop_filter)

lemma str_simps:
  "str [] = []"
  "str (c # cs) = of_char c # str cs"
  by (simp_all add: str_def)

lemma is_space_simps:
  "is_space 32" "is_space 10" "is_space 9" "\<not> is_space 97" "\<not> is_space 98" "\<not> is_space 99"
  by (simp_all add: is_space_def)

theorem clean_text_refines_spec_witness:
  "clean_text (str ''  a   b \<newline>\<newline>   \<newline> c'') = str ''a b\<newline>c''"
  using clean_text_refines_spec [of "str ''  a   b \<newline>\<newline>   \<newline> c''"]
  by (simp add: clean_text_spec_def split_char_def collapse_ws_def split_ws_def blank_def
      str_simps is_space_simps)

lemma split_ws_from_blank:
  "\<forall>c\<in>set s. is_space c \<Longrightarrow> split_ws_from [] s = []"
  by (induction s) simp_all

lemma split_char_from_chars:
  "l \<in> set (split_char_from sep cur s) \<Longrightarrow> set l \<subseteq> set cur \<union> set s"
proof (induction s arbitrary: cur)
  case Nil
  then show ?case by simp
next
  case (Cons c s)
  show ?case
  proof (cases "c = sep")
    case True
    with Cons.prems have "l = cur \<or> l \<in> set (split_char_from sep [] s)" by simp
    then show ?thesis using Cons.IH [of "[]"] by auto
  next
    case False
    with Cons.prems have "l \<in> set (split_char_from sep (cur @ [c]) s)" by simp
    then show ?thesis using Cons.IH [of "cur @ [c]"] by auto
  qed
qed

lemma blank_collapse: "blank l \<Longrightarrow> collapse_ws l = []"
  by (simp add: blank_def collapse_ws_def split_ws_def split_ws_from_blank list_all_iff)

lemma blank_clean_text:
  assumes "blank t"
  shows "clean_text t = []"
proof -
  have "\<forall>l\<in>set (split_char 10 t). blank l"
  proof
    fix l assume "l \<in> set (split_char 10 t)"
    then have "set l \<subseteq> set t"
      using split_char_from_chars [of l 10 "[]" t] by (simp add: split_char_def)
    then show "blank l" using assms by (auto simp: blank_def list_all_iff)
  qed
  then have "\<forall>l\<in>set (map collapse_ws (split_char 10 t)). blank l"
    by (auto simp: blank_collapse blank_def)
  then have "filter (\<lambda>l. \<not> blank l) (map collapse_ws (split_char 10 t)) = []"
    by (simp add: filter_empty_conv)
  then show ?thesis by (simp add: clean_text_def clean_loop_filter)
qed

subsection \<open>Language detection\<close>

lemma ratio_gt_iff: "0 < b \<Longrightarrow> (real a / real b > 3 / 10) \<longleftrightarrow> 3 * b < 10 * a"
proof -
  assume "0 < b"
  then have "(3 / 10 < real a / real b) \<longleftrightarrow> (3 / 10 * real b < real a)"
    by (simp add: pos_less_divide_eq)
  also have "\<dots> \<longleftrightarrow> (real (3 * b) < real (10 * a))" by (simp add: field_simps)
  also have "\<dots> \<longleftrightarrow> 3 * b < 10 * a" by (simp only: of_nat_less_iff)
  finally show ?thesis .
qed

lemma detect_language_alt:
  "detect_language text =
     (if 3 * length text < 10 * length (filter (\<lambda>c. c > 127) text)
      then str ''es'' else str ''en'')"
proof (cases "text = []")
  case True
  then show ?thesis by (simp add: detect_language_def)
next
  case False
  then have pos: "0 < length text" by simp
  show ?thesis
    unfolding detect_language_def Let_def ratio_gt_iff [OF pos]
    using False by simp
qed

lemma detect_language_empty: "detect_language [] = str ''en''"
  by (simp add: detect_language_def)

lemma en_neq_es: "str ''en'' \<noteq> str ''es''"
  by (simp add: str_def)

text \<open>
  C4 (as amended).  \<open>detect_language\<close> returns \<open>"es"\<close> exactly when the string is not empty
  and the fraction of its characters with code point above 127 is strictly greater than
  0.3, and \<open>"en"\<close> otherwise (so also at a fraction of exactly 0.3 and for the empty
  string); a string of ASCII characters only is English, and no other code is returned.
\<close>

theorem detect_language_threshold:
  "detect_language text =
     (if text \<noteq> [] \<and> 3 / 10 < non_ascii_fraction text then str ''es'' else str ''en'') \<and>
   ((\<forall>c\<in>set text. c \<le> 127) \<longrightarrow> detect_language text = str ''en'') \<and>
   detect_language text \<in> {str ''en'', str ''es''}"
proof (intro conjI)
  show "detect_language text =
     (if text \<noteq> [] \<and> 3 / 10 < non_ascii_fraction text then str ''es'' else str ''en'')"
    by (simp add: detect_language_def non_ascii_fraction_def Let_def)
  show "(\<forall>c\<in>set text. c \<le> 127) \<longrightarrow> detect_language text = str ''en''"
  proof
    assume "\<forall>c\<in>set text. c \<le> 127"
    then have "filter (\<lambda>c. c > 127) text = []" by (auto simp: filter_empty_conv)
    then show "detect_language text = str ''en''" by (simp add: detect_language_alt)
  qed
  show "detect_language text \<in> {str ''en'', str ''es''}"
    by (simp add: detect_language_alt)
qed

text \<open>Five times U+00C0 followed by " hello" is Spanish; "hello" is English.\<close>

theorem detect_language_threshold_witness:
  "detect_language ([192, 192, 192, 192, 192] @ str '' hello'') = str ''es'' \<and>
   list_all (\<lambda>c. c \<le> 127) (str ''hello'') \<and> detect_language (str ''hello'') = str ''en''"
  using detect_language_threshold [of "[192, 192, 192, 192, 192] @ str '' hello''"]
    detect_language_threshold [of "str ''hello''"]
  by (simp add: non_ascii_fraction_def str_simps list_all_iff)

text \<open>
  C4, the statement with "below 0.3, otherwise Spanish" fails.
  Three non-ASCII characters out of ten: the fraction is 0.3, which is not below the
  threshold, and the string is classified as English.
\<close>

theorem detect_language_boundary_counterexample:
  "non_ascii_fraction ([192, 192, 192] @ str ''abcdefg'') = 3 / 10 \<and>
   \<not> non_ascii_fraction ([192, 192, 192] @ str ''abcdefg'') < 3 / 10 \<and>
   detect_language ([192, 192, 192] @ str ''abcdefg'') = str ''en'' \<and>
   detect_language ([192, 192, 192] @ str ''abcdefg'') \<noteq> str ''es''"
  by (simp add: non_ascii_fraction_def detect_language_alt str_simps)

subsection \<open>Confidence\<close>

lemma positive_confidences_read_all:
  "positive_confidences f cs = bind (read_all f cs) (\<lambda>vs. Inr (filter (\<lambda>v. 0 < v) vs))"
proof (induction cs)
  case Nil
  show ?case by (simp add: bind_def)
next
  case (Cons c cs)
  show ?case
  proof (cases "f c")
    case (Inl e)
    then show ?thesis by (simp add: bind_def)
  next
    case (Inr v)
    with Cons show ?thesis by (cases "read_all f cs") (simp_all add: bind_def)
  qed
qed

lemma sum_list_upper: "(\<forall>x\<in>set xs. x \<le> (c::int)) \<Longrightarrow> sum_list xs \<le> c * int (length xs)"
  by (induction xs) (auto simp: algebra_simps)

lemma sum_list_nonneg_int: "(\<forall>x\<in>set xs. 0 \<le> (x::int)) \<Longrightarrow> 0 \<le> sum_list xs"
  by (induction xs) auto

lemma mean_positive_nonneg: "0 \<le> mean_positive vals"
proof -
  have "0 \<le> sum_list (filter (\<lambda>v. 0 < v) vals)"
    by (rule sum_list_nonneg_int) auto
  then show ?thesis by (simp add: mean_positive_def Let_def)
qed

lemma mean_positive_upper:
  assumes "\<forall>v\<in>set vals. v \<le> 100"
  shows "mean_positive vals \<le> 100"
proof (cases "filter (\<lambda>v. 0 < v) vals = []")
  case True
  then show ?thesis by (simp add: mean_positive_def)
next
  case False
  let ?pos = "filter (\<lambda>v. 0 < v) vals"
  have "sum_list ?pos \<le> 100 * int (length ?pos)"
    by (rule sum_list_upper) (use assms in auto)
  then have "real_of_int (sum_list ?pos) \<le> 100 * real (length ?pos)"
    by (metis of_int_le_iff of_int_mult of_int_numeral of_int_of_nat_eq)
  moreover have "0 < real (length ?pos)" using False by simp
  ultimately have "real_of_int (sum_list ?pos) / real (length ?pos) \<le> 100"
    by (simp add: pos_divide_le_eq)
  then show ?thesis using False by (simp add: mean_positive_def Let_def)
qed

lemma mean_positive_none: "\<forall>v\<in>set vals. v \<le> 0 \<Longrightarrow> mean_positive vals = 0"
proof -
  assume "\<forall>v\<in>set vals. v \<le> 0"
  then have "filter (\<lambda>v. 0 < v) vals = []" by (auto simp: filter_empty_conv)
  then show ?thesis by (simp add: mean_positive_def)
qed

lemma get_text_confidence_alt:
  "get_text_confidence L img =
     Inr (case token_confidences L img of Inl e \<Rightarrow> 0 | Inr vals \<Rightarrow> mean_positive vals)"
proof (cases "preprocess_image L img")
  case (Inl e)
  then show ?thesis
    by (simp add: get_text_confidence_def token_confidences_def bind_def try_except_def)
next
  case p: (Inr p)
  show ?thesis
  proof (cases "image_to_data_conf L p")
    case (Inl e)
    with p show ?thesis
      by (simp add: get_text_confidence_def token_confidences_def bind_def try_except_def)
  next
    case d: (Inr d)
    show ?thesis
    proof (cases "read_all (py_int L) d")
      case (Inl e)
      with p d show ?thesis
        by (simp add: get_text_confidence_def token_confidences_def bind_def try_except_def
            positive_confidences_read_all)
    next
      case (Inr vals)
      with p d show ?thesis
        by (simp add: get_text_confidence_def token_confidences_def bind_def try_except_def
            positive_confidences_read_all mean_positive_def Let_def)
    qed
  qed
qed

text \<open>
  C8.  \<open>get_text_confidence\<close> always returns a value.  When preprocessing, the OCR call or
  the reading of an entry raises, the value is 0; otherwise it is the arithmetic mean of
  exactly the confidence values that are strictly greater than zero, and 0 when there is
  none.  The value is never negative, and it is at most 100 when the engine's confidence
  values are (Tesseract reports them between -1 and 100).
\<close>

theorem get_text_confidence_mean:
  "\<exists>r. get_text_confidence L img = Inr r \<and> 0 \<le> r \<and>
     (case token_confidences L img of
        Inl e \<Rightarrow> r = 0
      | Inr vals \<Rightarrow> r = mean_positive vals \<and> ((\<forall>v\<in>set vals. v \<le> 100) \<longrightarrow> r \<le> 100))"
  by (cases "token_confidences L img")
     (simp_all add: get_text_confidence_alt mean_positive_nonneg mean_positive_upper)

lemma fake_libs_preprocess:
  "preprocess_image (fake_libs opened blurred ocr confs) i = blurred"
  by (cases blurred) (simp_all add: preprocess_image_def fake_libs_def bind_def)

lemma read_all_Inr: "read_all Inr cs = Inr cs"
  by (induction cs) (simp_all add: bind_def)

lemma fake_libs_tokens:
  "token_confidences (fake_libs opened blurred ocr confs) i = bind blurred (\<lambda>p. confs)"
  by (cases confs)
     (simp_all add: token_confidences_def fake_libs_preprocess,
      simp_all add: fake_libs_def bind_def read_all_Inr)

lemma fake_libs_ocr_text:
  "ocr_text (fake_libs opened blurred ocr confs) i = bind blurred (\<lambda>p. ocr)"
  by (simp add: ocr_text_def fake_libs_preprocess) (simp add: fake_libs_def)

text \<open>Entries -1, 90, 0, 80: the mean of 90 and 80 is returned; a failing OCR call gives 0.\<close>

theorem get_text_confidence_mean_witness:
  "list_all (\<lambda>v. v \<le> 100) [-1, 90, 0, 80 :: int] \<and>
   get_text_confidence (fake_libs (Inr 0) (Inr 0) (Inr []) (Inr [-1, 90, 0, 80])) 0 = Inr 85 \<and>
   get_text_confidence (fake_libs (Inr 0) (Inr 0) (Inr []) (Inl lib_error)) 0 = Inr 0"
  using get_text_confidence_mean [of "fake_libs (Inr 0) (Inr 0) (Inr []) (Inr [-1, 90, 0, 80])" 0]
    get_text_confidence_mean [of "fake_libs (Inr 0) (Inr 0) (Inr []) (Inl lib_error)" 0]
  by (simp add: fake_libs_tokens bind_def mean_positive_def)

subsection \<open>The whole extraction\<close>

lemma extract_text_alt:
  "extract_text L img = Inr (case ocr_text L img of Inl e \<Rightarrow> [] | Inr t \<Rightarrow> clean_text t)"
proof (cases "preprocess_image L img")
  case (Inl e)
  then show ?thesis by (simp add: extract_text_def ocr_text_def bind_def try_except_def)
next
  case (Inr p)
  then show ?thesis
    by (cases "image_to_string L p")
       (simp_all add: extract_text_def ocr_text_def bind_def try_except_def)
qed

lemma process_uploaded_image_alt:
  "process_uploaded_image L f =
     Inr (case image_open L f of
            Inl e \<Rightarrow> ([], 0, str ''en'')
          | Inr img \<Rightarrow>
              (let text = (case ocr_text L img of Inl e \<Rightarrow> [] | Inr t \<Rightarrow> clean_text t)
               in (text,
                   (case token_confidences L img of Inl e \<Rightarrow> 0 | Inr vals \<Rightarrow> mean_positive vals),
                   detect_language text)))"
  by (cases "image_open L f")
     (simp_all add: process_uploaded_image_def bind_def try_except_def
        extract_text_alt get_text_confidence_alt Let_def)

text \<open>
  C3 (as amended).  \<open>process_uploaded_image\<close> never raises.  When opening the image
  raises, it returns exactly (empty text, 0.0, "en").  The two OCR stages fail
  independently: when text extraction raises, the text is empty and the language "en";
  when the confidence stage raises, the confidence is 0.0; when both raise (as they do
  when preprocessing raises) the result is the whole triple.  An image on which the OCR
  finds only whitespace and no entry with positive confidence gives the triple too.
\<close>

theorem process_uploaded_image_soft_fail:
  "(\<exists>r. process_uploaded_image L f = Inr r) \<and>
   (image_open L f = Inl e \<longrightarrow> process_uploaded_image L f = Inr ([], 0, str ''en'')) \<and>
   (image_open L f = Inr img \<and> ocr_text L img = Inl e1 \<and> token_confidences L img = Inl e2 \<longrightarrow>
      process_uploaded_image L f = Inr ([], 0, str ''en'')) \<and>
   (image_open L f = Inr img \<and> ocr_text L img = Inl e1 \<longrightarrow>
      (\<exists>c. process_uploaded_image L f = Inr ([], c, str ''en''))) \<and>
   (image_open L f = Inr img \<and> token_confidences L img = Inl e2 \<longrightarrow>
      (\<exists>t l. process_uploaded_image L f = Inr (t, 0, l))) \<and>
   (image_open L f = Inr img \<and> ocr_text L img = Inr t \<and> blank t \<and>
      token_confidences L img = Inr vals \<and> (\<forall>v\<in>set vals. v \<le> 0) \<longrightarrow>
      process_uploaded_image L f = Inr ([], 0, str ''en''))"
  by (simp add: process_uploaded_image_alt detect_language_empty blank_clean_text
      mean_positive_none Let_def split: sum.splits)

lemma fake_libs_open: "image_open (fake_libs opened blurred ocr confs) f = opened"
  by (simp add: fake_libs_def)

theorem process_uploaded_image_soft_fail_witness:
  "process_uploaded_image (fake_libs (Inl lib_error) (Inr 0) (Inr []) (Inr [])) 0
     = Inr ([], 0, str ''en'') \<and>
   process_uploaded_image (fake_libs (Inr 0) (Inl lib_error) (Inr (str ''Hello'')) (Inr [90])) 0
     = Inr ([], 0, str ''en'') \<and>
   (\<exists>c. process_uploaded_image (fake_libs (Inr 0) (Inr 0) (Inl lib_error) (Inr [90])) 0
     = Inr ([], c, str ''en'')) \<and>
   (\<exists>t l. process_uploaded_image (fake_libs (Inr 0) (Inr 0) (Inr (str ''Hello'')) (Inl lib_error)) 0
     = Inr (t, 0, l)) \<and>
   blank (str '' \<newline> '') \<and> list_all (\<lambda>v. v \<le> 0) [-1, 0 :: int] \<and>
   process_uploaded_image (fake_libs (Inr 0) (Inr 0) (Inr (str '' \<newline> '')) (Inr [-1, 0])) 0
     = Inr ([], 0, str ''en'')"
proof -
  have b: "blank (str '' \<newline> '')"
    by (simp add: blank_def str_simps is_space_simps)
  have v: "\<forall>v\<in>set [-1, 0 :: int]. v \<le> 0" by simp
  note T = process_uploaded_image_soft_fail
  have 1: "process_uploaded_image (fake_libs (Inl lib_error) (Inr 0) (Inr []) (Inr [])) 0
     = Inr ([], 0, str ''en'')"
    using T [of "fake_libs (Inl lib_error) (Inr 0) (Inr []) (Inr [])" 0 lib_error]
    by (simp add: fake_libs_open)
  have 2: "process_uploaded_image (fake_libs (Inr 0) (Inl lib_error) (Inr (str ''Hello'')) (Inr [90])) 0
     = Inr ([], 0, str ''en'')"
    using T [of "fake_libs (Inr 0) (Inl lib_error) (Inr (str ''Hello'')) (Inr [90])" 0 _ 0
        lib_error lib_error]
    by (simp add: fake_libs_open fake_libs_ocr_text fake_libs_tokens bind_def)
  have 3: "\<exists>c. process_uploaded_image (fake_libs (Inr 0) (Inr 0) (Inl lib_error) (Inr [90])) 0
     = Inr ([], c, str ''en'')"
    using T [of "fake_libs (Inr 0) (Inr 0) (Inl lib_error) (Inr [90])" 0 _ 0 lib_error]
    by (simp add: fake_libs_open fake_libs_ocr_text bind_def)
  have 4: "\<exists>t l. process_uploaded_image
        (fake_libs (Inr 0) (Inr 0) (Inr (str ''Hello'')) (Inl lib_error)) 0 = Inr (t, 0, l)"
    using T [of "fake_libs (Inr 0) (Inr 0) (Inr (str ''Hello'')) (Inl lib_error)" 0 _ 0 _ lib_error]
    by (simp add: fake_libs_open fake_libs_tokens bind_def)
  have 5: "process_uploaded_image
        (fake_libs (Inr 0) (Inr 0) (Inr (str '' \<newline> '')) (Inr [-1, 0])) 0
     = Inr ([], 0, str ''en'')"
    using T [of "fake_libs (Inr 0) (Inr 0) (Inr (str '' \<newline> '')) (Inr [-1, 0])" 0 _ 0 _ _
        "str '' \<newline> ''" "[-1, 0]"] b
    by (simp add: fake_libs_open fake_libs_ocr_text fake_libs_tokens bind_def)
  have v': "list_all (\<lambda>v. v \<le> 0) [-1, 0 :: int]" by simp
  from 1 2 3 4 5 b v' show ?thesis by blast
qed

lemma clean_text_Hello: "clean_text (str ''Hello'') = str ''Hello''"
  by (simp add: clean_text_def clean_loop_filter split_char_def collapse_ws_def split_ws_def
      blank_def str_simps is_space_def)

lemma detect_language_Hello: "detect_language (str ''Hello'') = str ''en''"
  by (simp add: detect_language_alt str_simps)

text \<open>
  C3, the statement with "any OCR exception gives the triple" fails.
  \<open>image_to_string\<close> reads "Hello" and \<open>image_to_data\<close> raises (as pytesseract does on a
  Tesseract without TSV output): the text is kept, so the result is not the triple.
\<close>

theorem process_uploaded_image_triple_counterexample:
  "image_to_data_conf (fake_libs (Inr 0) (Inr 0) (Inr (str ''Hello'')) (Inl lib_error)) 0
     = Inl lib_error \<and>
   process_uploaded_image (fake_libs (Inr 0) (Inr 0) (Inr (str ''Hello'')) (Inl lib_error)) 0
     = Inr (str ''Hello'', 0, str ''en'') \<and>
   (str ''Hello'', 0 :: real, str ''en'') \<noteq> ([], 0, str ''en'')"
  by (simp add: process_uploaded_image_alt fake_libs_open fake_libs_ocr_text fake_libs_tokens
      bind_def clean_text_Hello detect_language_Hello)
     (simp add: fake_libs_def str_simps)


section \<open>Properties of the generation engine\<close>

subsection \<open>Settings\<close>

lemma clamp_float:
  "lo \<le> hi \<Longrightarrow> float_le (Num lo) (py_max (Num lo) (py_min (Num hi) t)) \<and>
     float_le (py_max (Num lo) (py_min (Num hi) t)) (Num hi)"
  by (cases t) (auto simp: py_max_def py_min_def)

lemma init_in_range: "settings_in_range (init_engine c)"
  by (simp add: settings_in_range_def init_engine_def)

lemma load_model_settings:
  "settings_in_range e \<Longrightarrow> settings_in_range (fst (load_model e n a b))"
  by (auto simp: settings_in_range_def load_model_def Let_def split: option.splits)

lemma update_settings_in_range:
  "settings_in_range e \<Longrightarrow> settings_in_range (update_settings e t p m)"
proof -
  assume a: "settings_in_range e"
  have T: "\<And>x. float_le (Num (1 / 10)) (py_max (Num (1 / 10)) (py_min (Num 2) x)) \<and>
     float_le (py_max (Num (1 / 10)) (py_min (Num 2) x)) (Num 2)"
    by (rule clamp_float) simp
  have P: "\<And>x. float_le (Num (1 / 10)) (py_max (Num (1 / 10)) (py_min (Num 1) x)) \<and>
     float_le (py_max (Num (1 / 10)) (py_min (Num 1) x)) (Num 1)"
    by (rule clamp_float) simp
  show ?thesis
    using a T P
    by (cases t; cases p; cases m)
       (simp_all add: settings_in_range_def update_settings_def Let_def)
qed

lemma foldl_in_range:
  "settings_in_range e \<Longrightarrow> settings_in_range (foldl apply_operation e ops)"
proof (induction ops arbitrary: e)
  case Nil
  then show ?case by simp
next
  case (Cons x xs)
  have "settings_in_range (apply_operation e x)"
    using Cons.prems by (cases x) (simp_all add: load_model_settings update_settings_in_range)
  then show ?case using Cons.IH by simp
qed

text \<open>
  C2.  The generation settings are always in their ranges: after initialization and any
  sequence of \<open>load_model\<close> and \<open>update_settings\<close> calls, with any arguments (NaN and the
  infinities included), temperature lies in [0.1, 2.0], top-p in [0.1, 1.0] and
  max_length in [100, 4096]; \<open>update_settings\<close> preserves the ranges;
  \<open>update_settings(temperature=5.0)\<close> gives 2.0 and \<open>update_settings(temperature=0.0)\<close>
  gives 0.1.
\<close>

theorem settings_always_in_range:
  "settings_in_range (engine_after c ops) \<and>
   (settings_in_range e \<longrightarrow> settings_in_range (update_settings e t p m)) \<and>
   temperature (update_settings e (Some (Num 5)) None None) = Num 2 \<and>
   temperature (update_settings e (Some (Num 0)) None None) = Num (1 / 10)"
  by (simp add: engine_after_def foldl_in_range init_in_range update_settings_in_range)
     (simp add: update_settings_def py_max_def py_min_def)

theorem settings_always_in_range_witness:
  "settings_in_range (init_engine False) \<and>
   settings_in_range
     (engine_after False [Update_settings (Some NaN) (Some PosInf) (Some (-7)),
                          Load_model None False True,
                          Update_settings (Some (Num 5)) None (Some 100000)]) \<and>
   settings_in_range (update_settings (init_engine False) (Some NegInf) (Some (Num 3)) (Some 0))"
  using settings_always_in_range [of False "[]"]
    settings_always_in_range [of False "[Update_settings (Some NaN) (Some PosInf) (Some (-7)),
                          Load_model None False True,
                          Update_settings (Some (Num 5)) None (Some 100000)]"
       "init_engine False" "Some NegInf" "Some (Num 3)" "Some 0"]
  by (simp add: engine_after_def)


subsection \<open>Prompt construction\<close>

lemma bind_Inr_right: "bind m (\<lambda>r. Inr r) = m"
  by (cases m) (simp_all add: bind_def)

lemma bind_bind_Inr: "bind (bind m (\<lambda>r. Inr (f r))) (\<lambda>r. Inr (g r)) = bind m (\<lambda>r. Inr (g (f r)))"
  by (cases m) (simp_all add: bind_def)

lemma format_literal:
  "brace_free pre \<Longrightarrow>
     format_from kw Literal (pre @ rest) = bind (format_from kw Literal rest) (\<lambda>r. Inr (pre @ r))"
proof (induction pre)
  case Nil
  show ?case by (simp add: bind_Inr_right)
next
  case (Cons c pre)
  then have c: "c \<noteq> 123" "c \<noteq> 125" and pre: "brace_free pre"
    by (simp_all add: brace_free_def)
  show ?case using c Cons.IH [OF pre] by (simp add: bind_bind_Inr)
qed

lemma format_field:
  "125 \<notin> set nm \<Longrightarrow>
     format_from kw (Field acc) (nm @ 125 # rest) =
       (if \<not> plain_name (acc @ nm) then Inl (Exception (str ''unsupported replacement field''))
        else case map_of kw (acc @ nm) of
               None \<Rightarrow> Inl (Exception (str ''KeyError: '' @ acc @ nm))
             | Some v \<Rightarrow> bind (format_from kw Literal rest) (\<lambda>r. Inr (v @ r)))"
  by (induction nm arbitrary: acc) (simp_all split: option.splits)

lemma plain_name_no_brace: "plain_name name \<Longrightarrow> 125 \<notin> set name \<and> name \<noteq> [] \<and> hd name \<noteq> 123"
  by (auto simp: plain_name_def ident_start_def ident_char_def list_all_iff)

lemma format_single:
  assumes "brace_free pre" "brace_free suf" "plain_name name" "map_of kw name = Some v"
  shows "py_format (pre @ [123] @ name @ [125] @ suf) kw = Inr (pre @ v @ suf)"
proof -
  from assms(3) obtain c cs where name: "name = c # cs" and c: "c \<noteq> 123" and nb: "125 \<notin> set name"
    using plain_name_no_brace [of name] by (cases name) auto
  have suf: "format_from kw Literal suf = Inr suf"
    using format_literal [OF assms(2), of kw "[]"] by (simp add: bind_def)
  have "format_from kw Literal ([123] @ name @ [125] @ suf) =
          format_from kw (Field []) (name @ 125 # suf)"
    using c by (simp add: name)
  also have "\<dots> = Inr (v @ suf)"
    using format_field [OF nb, of kw "[]" suf] assms(3,4) by (simp add: suf bind_def)
  finally have "format_from kw Literal ([123] @ name @ [125] @ suf) = Inr (v @ suf)" .
  then show ?thesis
    using format_literal [OF assms(1), of kw "[123] @ name @ [125] @ suf"]
    by (simp add: py_format_def bind_def)
qed

lemma single_field_format:
  assumes "single_field name t"
  shows "py_format t [(name, v)] = Inr (before_field t @ v @ after_field t)"
proof -
  from assms have t: "t = before_field t @ [123] @ name @ [125] @ after_field t"
    and b: "brace_free (before_field t)" "brace_free (after_field t)" "plain_name name"
    by (simp_all add: single_field_def)
  have "py_format (before_field t @ [123] @ name @ [125] @ after_field t) [(name, v)]
          = Inr (before_field t @ v @ after_field t)"
    by (rule format_single [OF b]) simp
  with t show ?thesis by simp
qed

lemma brace_free_append: "brace_free (a @ b) \<longleftrightarrow> brace_free a \<and> brace_free b"
  by (simp add: brace_free_def)

lemma of_char_lbrace: "(of_char c = (123::nat)) = (c = CHR ''{'')"
proof -
  have "(of_char c = (of_char CHR ''{'' :: nat)) = (c = CHR ''{'')" by (rule of_char_eq_iff)
  then show ?thesis by simp
qed

lemma of_char_rbrace: "(of_char c = (125::nat)) = (c = CHR ''}'')"
proof -
  have "(of_char c = (of_char CHR ''}'' :: nat)) = (c = CHR ''}'')" by (rule of_char_eq_iff)
  then show ?thesis by simp
qed

lemma brace_free_str: "brace_free (str s) \<longleftrightarrow> CHR ''{'' \<notin> set s \<and> CHR ''}'' \<notin> set s"
  by (induction s) (auto simp: brace_free_def str_simps of_char_lbrace of_char_rbrace)

lemma brace_free_single:
  "brace_free [] \<longleftrightarrow> True"
  "brace_free (c # r) \<longleftrightarrow> c \<noteq> 123 \<and> c \<noteq> 125 \<and> brace_free r"
  by (simp_all add: brace_free_def)

lemma before_field_chunk: "brace_free a \<Longrightarrow> before_field (a @ r) = a @ before_field r"
  by (induction a) (simp_all add: before_field_def brace_free_def)

lemma before_field_Cons:
  "before_field (c # r) = (if c = 123 then [] else c # before_field r)"
  by (simp add: before_field_def)

lemma after_field_chunk: "brace_free a \<Longrightarrow> after_field (a @ r) = after_field r"
  by (induction a) (simp_all add: after_field_def brace_free_def)

lemma after_field_Cons:
  "after_field (c # r) = (if c = 125 then r else after_field r)"
  by (simp add: after_field_def)

lemma plain_text: "plain_name (str ''text'')" "plain_name (str ''question'')"
  "plain_name (str ''concept'')"
  by (simp_all add: plain_name_def ident_start_def ident_char_def str_simps)

lemma field_str: "str ''{text}'' = [123] @ str ''text'' @ [125]"
  "str ''{question}'' = [123] @ str ''question'' @ [125]"
  "str ''{concept}'' = [123] @ str ''concept'' @ [125]"
  by (simp_all add: str_simps)

lemmas field_eval = single_field_def brace_free_append brace_free_str brace_free_single
  before_field_chunk before_field_Cons after_field_chunk after_field_Cons plain_text

lemma summarize_en_field: "single_field (str ''text'') summarize_en"
  unfolding summarize_en_def field_str by (simp add: field_eval)
lemma summarize_es_field: "single_field (str ''text'') summarize_es"
  unfolding summarize_es_def field_str by (simp add: field_eval)
lemma summarize_fr_field: "single_field (str ''text'') summarize_fr"
  unfolding summarize_fr_def field_str by (simp add: field_eval)
lemma summarize_de_field: "single_field (str ''text'') summarize_de"
  unfolding summarize_de_def field_str by (simp add: field_eval)

lemma answer_question_en_field: "single_field (str ''question'') answer_question_en"
  unfolding answer_question_en_def field_str by (simp add: field_eval)

lemma answer_question_es_field: "single_field (str ''question'') answer_question_es"
  unfolding answer_question_es_def field_str by (simp add: field_eval)

lemma answer_question_fr_field: "single_field (str ''question'') answer_question_fr"
  unfolding answer_question_fr_def field_str by (simp add: field_eval)

lemma answer_question_de_field: "single_field (str ''question'') answer_question_de"
  unfolding answer_question_de_def field_str by (simp add: field_eval)

lemma explain_concept_en_field: "single_field (str ''concept'') explain_concept_en"
  unfolding explain_concept_en_def field_str by (simp add: field_eval)

lemma explain_concept_es_field: "single_field (str ''concept'') explain_concept_es"
  unfolding explain_concept_es_def field_str by (simp add: field_eval)

lemma explain_concept_fr_field: "single_field (str ''concept'') explain_concept_fr"
  unfolding explain_concept_fr_def field_str by (simp add: field_eval)

lemma explain_concept_de_field: "single_field (str ''concept'') explain_concept_de"
  unfolding explain_concept_de_def field_str by (simp add: field_eval)


lemma language_codes_distinct:
  "str ''en'' \<noteq> str ''es''" "str ''en'' \<noteq> str ''fr''" "str ''en'' \<noteq> str ''de''"
  "str ''es'' \<noteq> str ''fr''" "str ''es'' \<noteq> str ''de''" "str ''fr'' \<noteq> str ''de''"
  by (simp_all add: str_simps)

lemma prompts_lookup:
  "map_of prompts (str ''summarize'') =
     Some [(str ''en'', summarize_en), (str ''es'', summarize_es),
           (str ''fr'', summarize_fr), (str ''de'', summarize_de)]"
  "map_of prompts (str ''answer_question'') =
     Some [(str ''en'', answer_question_en), (str ''es'', answer_question_es),
           (str ''fr'', answer_question_fr), (str ''de'', answer_question_de)]"
  "map_of prompts (str ''explain_concept'') =
     Some [(str ''en'', explain_concept_en), (str ''es'', explain_concept_es),
           (str ''fr'', explain_concept_fr), (str ''de'', explain_concept_de)]"
  by (simp_all add: prompts_def str_simps)

lemma templated_prompt:
  assumes d: "map_of prompts kind =
      Some [(str ''en'', a), (str ''es'', b), (str ''fr'', c), (str ''de'', d)]"
    and f: "single_field name a" "single_field name b" "single_field name c"
      "single_field name d"
  shows "\<exists>t. template_of kind language = Some t \<and> single_field name t \<and>
           bind (dict_item prompts kind) (\<lambda>d.
           bind (dict_item d (str ''en'')) (\<lambda>fallback.
           let prompt_template = dict_get d language fallback
           in py_format prompt_template [(name, text)]))
             = Inr (before_field t @ text @ after_field t)"
proof -
  let ?t = "if language = str ''en'' then a else if language = str ''es'' then b
            else if language = str ''fr'' then c else if language = str ''de'' then d else a"
  have sel: "template_of kind language = Some ?t"
    by (simp add: template_of_def d)
  have fld: "single_field name ?t" using f by simp
  have "bind (dict_item prompts kind) (\<lambda>d.
           bind (dict_item d (str ''en'')) (\<lambda>fallback.
           let prompt_template = dict_get d language fallback
           in py_format prompt_template [(name, text)])) = py_format ?t [(name, text)]"
    by (simp add: dict_item_def dict_get_def d bind_def)
  also have "\<dots> = Inr (before_field ?t @ text @ after_field ?t)"
    using fld by (rule single_field_format)
  finally show ?thesis using sel fld by blast
qed

lemma templated_fallback:
  assumes d: "map_of prompts kind =
      Some [(str ''en'', a), (str ''es'', b), (str ''fr'', c), (str ''de'', d)]"
    and l: "language \<notin> set supported_languages"
  shows "template_of kind language = template_of kind (str ''en'') \<and>
         bind (dict_item prompts kind) (\<lambda>d.
           bind (dict_item d (str ''en'')) (\<lambda>fallback.
           let prompt_template = dict_get d language fallback
           in py_format prompt_template kw))
         = bind (dict_item prompts kind) (\<lambda>d.
           bind (dict_item d (str ''en'')) (\<lambda>fallback.
           let prompt_template = dict_get d (str ''en'') fallback
           in py_format prompt_template kw))"
  using l by (simp add: template_of_def d dict_item_def dict_get_def bind_def
      supported_languages_def)

lemma translate_prompt_shape:
  "\<exists>pre suf. \<forall>txt. translate_prompt language txt = Inr (pre @ txt @ suf)"
proof -
  let ?suf = "str ''\<newline>\<newline>Translation:''"
  let ?pre = "if language = str ''es'' then str ''Translate the following text to Spanish:\<newline>\<newline>''
     else if language = str ''fr'' then str ''Translate the following text to French:\<newline>\<newline>''
     else if language = str ''de'' then str ''Translate the following text to German:\<newline>\<newline>''
     else str ''Translate the following text to English:\<newline>\<newline>''"
  have "\<forall>txt. translate_prompt language txt = Inr (?pre @ txt @ ?suf)"
    by (simp add: translate_prompt_def translation_prompts_def dict_item_def dict_get_def
        bind_def language_codes_distinct language_codes_distinct [symmetric])
  then show ?thesis by blast
qed

lemma translate_prompt_fallback:
  "language \<notin> set supported_languages \<Longrightarrow>
     translate_prompt language text = translate_prompt (str ''en'') text"
  by (simp add: translate_prompt_def translation_prompts_def dict_item_def dict_get_def
      bind_def supported_languages_def language_codes_distinct
      language_codes_distinct [symmetric])

lemma translate_prompt_values:
  "translate_prompt (str ''es'') text =
     Inr (str ''Translate the following text to Spanish:\<newline>\<newline>'' @ text @
          str ''\<newline>\<newline>Translation:'')"
  "translate_prompt (str ''fr'') text =
     Inr (str ''Translate the following text to French:\<newline>\<newline>'' @ text @
          str ''\<newline>\<newline>Translation:'')"
  "translate_prompt (str ''de'') text =
     Inr (str ''Translate the following text to German:\<newline>\<newline>'' @ text @
          str ''\<newline>\<newline>Translation:'')"
  "translate_prompt (str ''en'') text =
     Inr (str ''Translate the following text to English:\<newline>\<newline>'' @ text @
          str ''\<newline>\<newline>Translation:'')"
  by (simp_all add: translate_prompt_def translation_prompts_def dict_item_def dict_get_def
      bind_def language_codes_distinct language_codes_distinct [symmetric])

lemma translate_prompt_wording:
  "translate_prompt language text =
     Inr (str ''Translate the following text to '' @ target_language_name language @
          str '':\<newline>\<newline>'' @ text @ str ''\<newline>\<newline>Translation:'')"
proof -
  have w: "str ''Translate the following text to '' @ str ''Spanish'' @ str '':\<newline>\<newline>''
             = str ''Translate the following text to Spanish:\<newline>\<newline>''"
    "str ''Translate the following text to '' @ str ''French'' @ str '':\<newline>\<newline>''
             = str ''Translate the following text to French:\<newline>\<newline>''"
    "str ''Translate the following text to '' @ str ''German'' @ str '':\<newline>\<newline>''
             = str ''Translate the following text to German:\<newline>\<newline>''"
    "str ''Translate the following text to '' @ str ''English'' @ str '':\<newline>\<newline>''
             = str ''Translate the following text to English:\<newline>\<newline>''"
    by (simp_all add: str_def)
  have a: "\<And>x y z r. x @ y @ z @ r = (x @ y @ z) @ r" by simp
  show ?thesis
    unfolding target_language_name_def
    by (simp only: a w if_distrib [of "\<lambda>n. (str ''Translate the following text to '' @ n @ str '':\<newline>\<newline>'')"] split: if_splits)
       (simp add: translate_prompt_def translation_prompts_def dict_item_def dict_get_def
      bind_def language_codes_distinct language_codes_distinct [symmetric] w)
qed

lemma template_of_values:
  "template_of (str ''summarize'') (str ''en'') = Some summarize_en"
  "template_of (str ''summarize'') (str ''es'') = Some summarize_es"
  "template_of (str ''summarize'') (str ''fr'') = Some summarize_fr"
  "template_of (str ''summarize'') (str ''de'') = Some summarize_de"
  "template_of (str ''answer_question'') (str ''en'') = Some answer_question_en"
  "template_of (str ''answer_question'') (str ''es'') = Some answer_question_es"
  "template_of (str ''answer_question'') (str ''fr'') = Some answer_question_fr"
  "template_of (str ''answer_question'') (str ''de'') = Some answer_question_de"
  "template_of (str ''explain_concept'') (str ''en'') = Some explain_concept_en"
  "template_of (str ''explain_concept'') (str ''es'') = Some explain_concept_es"
  "template_of (str ''explain_concept'') (str ''fr'') = Some explain_concept_fr"
  "template_of (str ''explain_concept'') (str ''de'') = Some explain_concept_de"
  by (simp_all add: template_of_def prompts_lookup language_codes_distinct
      language_codes_distinct [symmetric])

lemma prompts_contain_text:
  "\<exists>p1 p2 p3 p4.
      summarize_prompt language text = Inr p1 \<and> sublist text p1 \<and>
      answer_prompt language text = Inr p2 \<and> sublist text p2 \<and>
      explain_prompt language text = Inr p3 \<and> sublist text p3 \<and>
      translate_prompt language text = Inr p4 \<and> sublist text p4"
proof -
  obtain t1 where 1: "summarize_prompt language text = Inr (before_field t1 @ text @ after_field t1)"
    unfolding summarize_prompt_def
    using templated_prompt [OF prompts_lookup(1) summarize_en_field summarize_es_field
          summarize_fr_field summarize_de_field, of language "text"] by blast
  obtain t2 where 2: "answer_prompt language text = Inr (before_field t2 @ text @ after_field t2)"
    unfolding answer_prompt_def
    using templated_prompt [OF prompts_lookup(2) answer_question_en_field
          answer_question_es_field answer_question_fr_field answer_question_de_field,
          of language "text"] by blast
  obtain t3 where 3: "explain_prompt language text = Inr (before_field t3 @ text @ after_field t3)"
    unfolding explain_prompt_def
    using templated_prompt [OF prompts_lookup(3) explain_concept_en_field
          explain_concept_es_field explain_concept_fr_field explain_concept_de_field,
          of language "text"] by blast
  obtain pre suf where 4: "translate_prompt language text = Inr (pre @ text @ suf)"
    using translate_prompt_shape [of language] by blast
  have s: "\<And>a b. sublist text (a @ text @ b)" by (auto simp: sublist_def)
  from 1 2 3 4 s show ?thesis by blast
qed

text \<open>
  C6.  For every task kind and every language code, the prompt is built from the
  template keyed by the kind and the language, the English template when the language
  is not one of en, es, fr, de; the template has a single placeholder, and the prompt is
  the template with the user text in its place, character for character, so the text is
  a substring of the prompt.  Each of the twelve (kind, language) pairs selects its own
  template.  For translation the prompt is "Translate the following text to L:", two
  newlines, the text, two newlines and "Translation:", where L is Spanish, French,
  German or English for es, fr, de and en, and English for an unrecognized language.
\<close>

theorem prompt_construction:
  "(\<exists>t. template_of (str ''summarize'') language = Some t \<and> single_field (str ''text'') t \<and>
        summarize_prompt language text = Inr (before_field t @ text @ after_field t)) \<and>
   (\<exists>t. template_of (str ''answer_question'') language = Some t \<and>
        single_field (str ''question'') t \<and>
        answer_prompt language text = Inr (before_field t @ text @ after_field t)) \<and>
   (\<exists>t. template_of (str ''explain_concept'') language = Some t \<and>
        single_field (str ''concept'') t \<and>
        explain_prompt language text = Inr (before_field t @ text @ after_field t)) \<and>
   (\<exists>pre suf. \<forall>txt. translate_prompt language txt = Inr (pre @ txt @ suf)) \<and>
   translate_prompt language text =
     Inr (str ''Translate the following text to '' @ target_language_name language @
          str '':\<newline>\<newline>'' @ text @ str ''\<newline>\<newline>Translation:'') \<and>
   translate_prompt (str ''es'') text =
     Inr (str ''Translate the following text to Spanish:\<newline>\<newline>'' @ text @
          str ''\<newline>\<newline>Translation:'') \<and>
   translate_prompt (str ''fr'') text =
     Inr (str ''Translate the following text to French:\<newline>\<newline>'' @ text @
          str ''\<newline>\<newline>Translation:'') \<and>
   translate_prompt (str ''de'') text =
     Inr (str ''Translate the following text to German:\<newline>\<newline>'' @ text @
          str ''\<newline>\<newline>Translation:'') \<and>
   translate_prompt (str ''en'') text =
     Inr (str ''Translate the following text to English:\<newline>\<newline>'' @ text @
          str ''\<newline>\<newline>Translation:'') \<and>
   template_of (str ''summarize'') (str ''en'') = Some summarize_en \<and>
   template_of (str ''summarize'') (str ''es'') = Some summarize_es \<and>
   template_of (str ''summarize'') (str ''fr'') = Some summarize_fr \<and>
   template_of (str ''summarize'') (str ''de'') = Some summarize_de \<and>
   template_of (str ''answer_question'') (str ''en'') = Some answer_question_en \<and>
   template_of (str ''answer_question'') (str ''es'') = Some answer_question_es \<and>
   template_of (str ''answer_question'') (str ''fr'') = Some answer_question_fr \<and>
   template_of (str ''answer_question'') (str ''de'') = Some answer_question_de \<and>
   template_of (str ''explain_concept'') (str ''en'') = Some explain_concept_en \<and>
   template_of (str ''explain_concept'') (str ''es'') = Some explain_concept_es \<and>
   template_of (str ''explain_concept'') (str ''fr'') = Some explain_concept_fr \<and>
   template_of (str ''explain_concept'') (str ''de'') = Some explain_concept_de \<and>
   (\<exists>p1 p2 p3 p4.
      summarize_prompt language text = Inr p1 \<and> sublist text p1 \<and>
      answer_prompt language text = Inr p2 \<and> sublist text p2 \<and>
      explain_prompt language text = Inr p3 \<and> sublist text p3 \<and>
      translate_prompt language text = Inr p4 \<and> sublist text p4) \<and>
   (language \<notin> set supported_languages \<longrightarrow>
      template_of (str ''summarize'') language = template_of (str ''summarize'') (str ''en'') \<and>
      template_of (str ''answer_question'') language
        = template_of (str ''answer_question'') (str ''en'') \<and>
      template_of (str ''explain_concept'') language
        = template_of (str ''explain_concept'') (str ''en'') \<and>
      summarize_prompt language text = summarize_prompt (str ''en'') text \<and>
      answer_prompt language text = answer_prompt (str ''en'') text \<and>
      explain_prompt language text = explain_prompt (str ''en'') text \<and>
      translate_prompt language text = translate_prompt (str ''en'') text)"
proof (intro conjI impI)
  show "\<exists>t. template_of (str ''summarize'') language = Some t \<and> single_field (str ''text'') t \<and>
        summarize_prompt language text = Inr (before_field t @ text @ after_field t)"
    unfolding summarize_prompt_def
    by (rule templated_prompt [OF prompts_lookup(1) summarize_en_field summarize_es_field
          summarize_fr_field summarize_de_field])
  show "\<exists>t. template_of (str ''answer_question'') language = Some t \<and>
        single_field (str ''question'') t \<and>
        answer_prompt language text = Inr (before_field t @ text @ after_field t)"
    unfolding answer_prompt_def
    by (rule templated_prompt [OF prompts_lookup(2) answer_question_en_field
          answer_question_es_field answer_question_fr_field answer_question_de_field])
  show "\<exists>t. template_of (str ''explain_concept'') language = Some t \<and>
        single_field (str ''concept'') t \<and>
        explain_prompt language text = Inr (before_field t @ text @ after_field t)"
    unfolding explain_prompt_def
    by (rule templated_prompt [OF prompts_lookup(3) explain_concept_en_field
          explain_concept_es_field explain_concept_fr_field explain_concept_de_field])
  show "\<exists>pre suf. \<forall>txt. translate_prompt language txt = Inr (pre @ txt @ suf)"
    by (rule translate_prompt_shape)
  show "\<exists>p1 p2 p3 p4.
      summarize_prompt language text = Inr p1 \<and> sublist text p1 \<and>
      answer_prompt language text = Inr p2 \<and> sublist text p2 \<and>
      explain_prompt language text = Inr p3 \<and> sublist text p3 \<and>
      translate_prompt language text = Inr p4 \<and> sublist text p4"
    by (rule prompts_contain_text)
  show "translate_prompt language text =
     Inr (str ''Translate the following text to '' @ target_language_name language @
          str '':\<newline>\<newline>'' @ text @ str ''\<newline>\<newline>Translation:'')"
    by (rule translate_prompt_wording)
  show "translate_prompt (str ''es'') text =
     Inr (str ''Translate the following text to Spanish:\<newline>\<newline>'' @ text @
          str ''\<newline>\<newline>Translation:'')"
    by (rule translate_prompt_values(1))
  show "translate_prompt (str ''fr'') text =
     Inr (str ''Translate the following text to French:\<newline>\<newline>'' @ text @
          str ''\<newline>\<newline>Translation:'')"
    by (rule translate_prompt_values(2))
  show "translate_prompt (str ''de'') text =
     Inr (str ''Translate the following text to German:\<newline>\<newline>'' @ text @
          str ''\<newline>\<newline>Translation:'')"
    by (rule translate_prompt_values(3))
  show "translate_prompt (str ''en'') text =
     Inr (str ''Translate the following text to English:\<newline>\<newline>'' @ text @
          str ''\<newline>\<newline>Translation:'')"
    by (rule translate_prompt_values(4))
  show "template_of (str ''summarize'') (str ''en'') = Some summarize_en"
    by (rule template_of_values(1))
  show "template_of (str ''summarize'') (str ''es'') = Some summarize_es"
    by (rule template_of_values(2))
  show "template_of (str ''summarize'') (str ''fr'') = Some summarize_fr"
    by (rule template_of_values(3))
  show "template_of (str ''summarize'') (str ''de'') = Some summarize_de"
    by (rule template_of_values(4))
  show "template_of (str ''answer_question'') (str ''en'') = Some answer_question_en"
    by (rule template_of_values(5))
  show "template_of (str ''answer_question'') (str ''es'') = Some answer_question_es"
    by (rule template_of_values(6))
  show "template_of (str ''answer_question'') (str ''fr'') = Some answer_question_fr"
    by (rule template_of_values(7))
  show "template_of (str ''answer_question'') (str ''de'') = Some answer_question_de"
    by (rule template_of_values(8))
  show "template_of (str ''explain_concept'') (str ''en'') = Some explain_concept_en"
    by (rule template_of_values(9))
  show "template_of (str ''explain_concept'') (str ''es'') = Some explain_concept_es"
    by (rule template_of_values(10))
  show "template_of (str ''explain_concept'') (str ''fr'') = Some explain_concept_fr"
    by (rule template_of_values(11))
  show "template_of (str ''explain_concept'') (str ''de'') = Some explain_concept_de"
    by (rule template_of_values(12))
next
  assume l: "language \<notin> set supported_languages"
  show "template_of (str ''summarize'') language = template_of (str ''summarize'') (str ''en'')"
    using templated_fallback [OF prompts_lookup(1) l] by simp
  show "template_of (str ''answer_question'') language
        = template_of (str ''answer_question'') (str ''en'')"
    using templated_fallback [OF prompts_lookup(2) l] by simp
  show "template_of (str ''explain_concept'') language
        = template_of (str ''explain_concept'') (str ''en'')"
    using templated_fallback [OF prompts_lookup(3) l] by simp
  show "summarize_prompt language text = summarize_prompt (str ''en'') text"
    unfolding summarize_prompt_def using templated_fallback [OF prompts_lookup(1) l] by simp
  show "answer_prompt language text = answer_prompt (str ''en'') text"
    unfolding answer_prompt_def using templated_fallback [OF prompts_lookup(2) l] by simp
  show "explain_prompt language text = explain_prompt (str ''en'') text"
    unfolding explain_prompt_def using templated_fallback [OF prompts_lookup(3) l] by simp
  show "translate_prompt language text = translate_prompt (str ''en'') text"
    using l by (rule translate_prompt_fallback)
qed

theorem prompt_construction_witness:
  "str ''xx'' \<notin> set supported_languages \<and>
   summarize_prompt (str ''xx'') (str ''cells'') = summarize_prompt (str ''en'') (str ''cells'') \<and>
   answer_prompt (str ''xx'') (str ''cells'') = answer_prompt (str ''en'') (str ''cells'') \<and>
   explain_prompt (str ''xx'') (str ''cells'') = explain_prompt (str ''en'') (str ''cells'') \<and>
   translate_prompt (str ''xx'') (str ''cells'') = translate_prompt (str ''en'') (str ''cells'') \<and>
   translate_prompt (str ''es'') (str ''cells'') =
     Inr (str ''Translate the following text to Spanish:\<newline>\<newline>'' @ str ''cells'' @
          str ''\<newline>\<newline>Translation:'') \<and>
   template_of (str ''summarize'') (str ''fr'') = Some summarize_fr"
proof -
  have l: "str ''xx'' \<notin> set supported_languages"
    by (simp add: supported_languages_def str_simps)
  from prompt_construction [of "str ''xx''" "str ''cells''"] l show ?thesis by blast
qed

text \<open>The English summary prompt for the text "cells".\<close>

lemma summarize_prompt_en_value:
  "summarize_prompt (str ''en'') (str ''cells'') =
     Inr (str ''You are a helpful educational assistant. Summarize the following '' @
     str ''textbook content in simple terms that a 12-year-old student '' @
     str ''can understand. Focus on the main concepts and explain them '' @
     str ''clearly:\<newline>\<newline>'' @ str ''cells'' @
     str ''\<newline>\<newline>Summary:'')"
  unfolding summarize_prompt_def
  by (simp add: prompts_lookup dict_item_def dict_get_def bind_def
      single_field_format [OF summarize_en_field])
     (simp add: summarize_en_def field_str field_eval)

subsection \<open>Generation and the task operations\<close>

lemmas io_defs = io_bind_def io_try_def io_return_def emit_def lift_def



lemma generate_response_returns:
  "model_loaded e \<Longrightarrow>
   B prompt (max_length e) (py_or ml (max_length e)) (temperature e) (top_p e)
     = Inr response \<Longrightarrow>
     generate_response B e prompt ml =
       (Inr (strip (drop (length prompt) response)),
        [Generation_requested prompt ml, Model_invoked prompt (py_or ml (max_length e))])"
  by (simp add: generate_response_def io_defs Let_def)


lemma prompts_total:
  "\<exists>p. summarize_prompt language text = Inr p"
  "\<exists>p. answer_prompt language text = Inr p"
  "\<exists>p. explain_prompt language text = Inr p"
  "\<exists>p. translate_prompt language text = Inr p"
proof -
  show "\<exists>p. summarize_prompt language text = Inr p"
    unfolding summarize_prompt_def
    using templated_prompt [OF prompts_lookup(1) summarize_en_field summarize_es_field
          summarize_fr_field summarize_de_field, of language "text"] by blast
  show "\<exists>p. answer_prompt language text = Inr p"
    unfolding answer_prompt_def
    using templated_prompt [OF prompts_lookup(2) answer_question_en_field
          answer_question_es_field answer_question_fr_field answer_question_de_field,
          of language "text"] by blast
  show "\<exists>p. explain_prompt language text = Inr p"
    unfolding explain_prompt_def
    using templated_prompt [OF prompts_lookup(3) explain_concept_en_field
          explain_concept_es_field explain_concept_fr_field explain_concept_de_field,
          of language "text"] by blast
  show "\<exists>p. translate_prompt language text = Inr p"
    using translate_prompt_shape [of language] by blast
qed




lemma loaded_engine_loaded: "model_loaded loaded_engine"
  by (simp add: loaded_engine_def load_model_def init_engine_def)



text \<open>
  C5 (as amended).  When the model is loaded and the call returns, \<open>generate_response\<close>
  returns the decoded output without its first \<open>len(prompt)\<close> characters, stripped of
  surrounding whitespace; when the decoded output is the prompt followed by a
  continuation, that is the stripped continuation.
\<close>

theorem generate_response_continuation:
  "(model_loaded e \<and>
    B prompt (max_length e) (py_or ml (max_length e)) (temperature e) (top_p e) = Inr response
      \<longrightarrow> fst (generate_response B e prompt ml) = Inr (strip (drop (length prompt) response))) \<and>
   (model_loaded e \<and>
    B prompt (max_length e) (py_or ml (max_length e)) (temperature e) (top_p e)
      = Inr (prompt @ continuation)
      \<longrightarrow> fst (generate_response B e prompt ml) = Inr (strip continuation))"
  by (simp add: generate_response_returns)

theorem generate_response_continuation_witness:
  "model_loaded loaded_engine \<and>
   echo_backend (str '' Plants make food. '') (str ''Explain:'') (max_length loaded_engine)
       (py_or (Some 600) (max_length loaded_engine)) (temperature loaded_engine)
       (top_p loaded_engine) = Inr (str ''Explain:'' @ str '' Plants make food. '') \<and>
   fst (generate_response (echo_backend (str '' Plants make food. '')) loaded_engine
          (str ''Explain:'') (Some 600)) = Inr (str ''Plants make food.'')"
proof -
  have s: "strip (str '' Plants make food. '') = str ''Plants make food.''"
    by (simp add: strip_def str_simps is_space_def)
  have b: "echo_backend (str '' Plants make food. '') (str ''Explain:'') (max_length loaded_engine)
       (py_or (Some 600) (max_length loaded_engine)) (temperature loaded_engine)
       (top_p loaded_engine) = Inr (str ''Explain:'' @ str '' Plants make food. '')"
    by (simp add: echo_backend_def)
  from generate_response_continuation [of loaded_engine "echo_backend (str '' Plants make food. '')"
      "str ''Explain:''" "Some 600" "str ''Explain:'' @ str '' Plants make food. ''"
      "str '' Plants make food. ''"] loaded_engine_loaded b s
  show ?thesis by simp
qed

text \<open>
  C5, the statement "the result never has the prompt as a prefix" fails.
  The prompt is "Hi" and the model continues with "Hi there": the decoded output is
  "HiHi there", the result is "Hi there", and the prompt is a prefix of it.
\<close>

theorem generate_response_prefix_counterexample:
  "fst (generate_response (echo_backend (str ''Hi there'')) loaded_engine (str ''Hi'') None)
     = Inr (str ''Hi there'') \<and>
   prefix (str ''Hi'') (str ''Hi there'')"
proof -
  have s: "strip (str ''Hi there'') = str ''Hi there''"
    by (simp add: strip_def str_simps is_space_def)
  have "fst (generate_response (echo_backend (str ''Hi there'')) loaded_engine (str ''Hi'') None)
     = Inr (strip (drop (length (str ''Hi'')) (str ''Hi'' @ str ''Hi there'')))"
    by (simp add: generate_response_returns [OF loaded_engine_loaded] echo_backend_def)
  then show ?thesis by (simp add: s) (simp add: str_simps)
qed

text \<open>
  C7.  On the empty string \<open>summarize_text\<close>, \<open>answer_question\<close> and \<open>explain_concept\<close>
  return their fixed "No ... provided" messages, and no event is recorded: the
  generation call is not made.
\<close>

theorem empty_input_messages:
  "summarize_text B e [] language = (Inr (str ''No text provided for summarization.''), []) \<and>
   answer_question B e [] language = (Inr (str ''No question provided.''), []) \<and>
   explain_concept B e [] language = (Inr (str ''No concept provided for explanation.''), [])"
  by (simp add: summarize_text_def answer_question_def explain_concept_def strip_def io_defs)

theorem empty_input_messages_witness:
  "summarize_text failing_backend (init_engine False) [] (str ''en'')
     = (Inr (str ''No text provided for summarization.''), []) \<and>
   answer_question (echo_backend (str ''x'')) loaded_engine [] (str ''de'')
     = (Inr (str ''No question provided.''), []) \<and>
   explain_concept (echo_backend (str ''x'')) loaded_engine [] (str ''xx'')
     = (Inr (str ''No concept provided for explanation.''), [])"
  using empty_input_messages [of failing_backend "init_engine False" "str ''en''"]
    empty_input_messages [of "echo_backend (str ''x'')" loaded_engine "str ''de''"]
    empty_input_messages [of "echo_backend (str ''x'')" loaded_engine "str ''xx''"]
  by simp

text \<open>
  C10.  On a string of whitespace characters only, \<open>summarize_text\<close>, \<open>answer_question\<close>
  and \<open>explain_concept\<close> return their fixed "No ... provided" messages and
  \<open>translate_text\<close> returns the empty string; no event is recorded, so neither the
  generation call nor the model is reached.
\<close>

theorem blank_input_messages:
  assumes "\<forall>c\<in>set text. is_space c"
  shows "summarize_text B e text language
           = (Inr (str ''No text provided for summarization.''), []) \<and>
         answer_question B e text language = (Inr (str ''No question provided.''), []) \<and>
         explain_concept B e text language
           = (Inr (str ''No concept provided for explanation.''), []) \<and>
         translate_text B e text language = (Inr [], [])"
proof -
  from assms have "strip text = []" by (simp add: strip_empty_iff)
  then show ?thesis
    by (simp add: summarize_text_def answer_question_def explain_concept_def
        translate_text_def io_defs)
qed

theorem blank_input_messages_witness:
  "list_all is_space (str '' \<newline> '' @ [9, 160, 8195]) \<and>
   summarize_text (echo_backend (str ''x'')) loaded_engine (str '' \<newline> '' @ [9, 160, 8195])
       (str ''en'') = (Inr (str ''No text provided for summarization.''), []) \<and>
   translate_text (echo_backend (str ''x'')) loaded_engine (str '' \<newline> '' @ [9, 160, 8195])
       (str ''fr'') = (Inr [], [])"
proof -
  have w: "\<forall>c\<in>set (str '' \<newline> '' @ [9, 160, 8195]). is_space c"
    by (simp add: str_simps is_space_def)
  from blank_input_messages [OF w, of "echo_backend (str ''x'')" loaded_engine "str ''en''"]
    blank_input_messages [OF w, of "echo_backend (str ''x'')" loaded_engine "str ''fr''"] w
  show ?thesis by (simp add: list_all_iff)
qed

text \<open>On an input that is not blank the generation call is made and recorded.\<close>

lemma nonblank_requests_generation:
  assumes "strip text \<noteq> []"
  shows "\<exists>p rest. snd (summarize_text B e text language)
           = Generation_requested p (Some 500) # rest"
proof -
  obtain p where p: "summarize_prompt language text = Inr p" using prompts_total(1) by blast
  show ?thesis
    using assms
    by (cases "model_loaded e";
        cases "B p (max_length e) (py_or (Some 500) (max_length e)) (temperature e) (top_p e)")
       (auto simp: summarize_text_def p io_defs generate_response_def Let_def
          split: exn.splits prod.splits)
qed

end
